theory Spec2Isabelle
  imports Main
begin

section \<open>Python strings\<close>

text \<open>
  A Python \<open>str\<close> is modelled as a \<open>string\<close> whose characters are the code points
  0 to 255 (ASCII and Latin-1). Inside that range the predicates and conversions below are
  the ones of CPython: \<open>str.isspace\<close>, \<open>str.lower\<close>, \<open>str.isdigit\<close>, \<open>int\<close>.
  Code points above 255 are outside the model.
\<close>

definition py_isspace :: "char \<Rightarrow> bool" where
  "py_isspace c = ((of_char c :: nat) \<in> {9, 10, 11, 12, 13, 28, 29, 30, 31, 32, 133, 160})"

definition py_strip :: "string \<Rightarrow> string" where
  "py_strip s = rev (dropWhile py_isspace (rev (dropWhile py_isspace s)))"

definition py_lower_char :: "char \<Rightarrow> char" where
  "py_lower_char c =
     (let n = (of_char c :: nat)
      in if (65 \<le> n \<and> n \<le> 90) \<or> (192 \<le> n \<and> n \<le> 222 \<and> n \<noteq> 215)
         then char_of (n + 32) else c)"

definition py_lower :: "string \<Rightarrow> string" where
  "py_lower s = map py_lower_char s"

text \<open>\<open>s.replace(old, new)\<close> for a one-character \<open>old\<close>.\<close>

definition py_replace_char :: "char \<Rightarrow> string \<Rightarrow> string \<Rightarrow> string" where
  "py_replace_char old new s = concat (map (\<lambda>c. if c = old then new else [c]) s)"

text \<open>\<open>s.split(sep)\<close> for a one-character \<open>sep\<close>: never empty, one more piece than separators.\<close>

fun py_split :: "char \<Rightarrow> string \<Rightarrow> string list" where
  "py_split sep [] = [[]]"
| "py_split sep (c # cs) =
     (if c = sep then [] # py_split sep cs
      else (c # hd (py_split sep cs)) # tl (py_split sep cs))"

text \<open>\<open>sep.join(xs)\<close>.\<close>

fun py_join :: "string \<Rightarrow> string list \<Rightarrow> string" where
  "py_join sep [] = []"
| "py_join sep [x] = x"
| "py_join sep (x # y # ys) = x @ sep @ py_join sep (y # ys)"

text \<open>\<open>sub in s\<close> on strings.\<close>

fun py_in :: "string \<Rightarrow> string \<Rightarrow> bool" where
  "py_in sub [] = (sub = [])"
| "py_in sub (c # cs) = (take (length sub) (c # cs) = sub \<or> py_in sub cs)"

text \<open>
  \<open>str.isdigit\<close>: in the modelled range the digit characters are \<open>0\<close> to \<open>9\<close> and the
  superscripts two, three and one (code points 178, 179, 185). \<open>int\<close> accepts only the
  decimal digits \<open>0\<close> to \<open>9\<close> among them and raises \<open>ValueError\<close> on a superscript.
  (CPython's configurable limit on the number of digits \<open>int\<close> converts is not modelled.)
\<close>

definition is_ascii_digit :: "char \<Rightarrow> bool" where
  "is_ascii_digit c = (48 \<le> (of_char c :: nat) \<and> (of_char c :: nat) \<le> 57)"

definition py_isdigit_char :: "char \<Rightarrow> bool" where
  "py_isdigit_char c = (is_ascii_digit c \<or> (of_char c :: nat) \<in> {178, 179, 185})"

definition py_isdigit :: "string \<Rightarrow> bool" where
  "py_isdigit s = (s \<noteq> [] \<and> list_all py_isdigit_char s)"

datatype exn = ValueError | OSError | EOFError

definition digits_value :: "string \<Rightarrow> int" where
  "digits_value s = foldl (\<lambda>acc c. 10 * acc + (int (of_char c) - 48)) 0 s"

definition py_int :: "string \<Rightarrow> exn + int" where
  "py_int s = (if s \<noteq> [] \<and> list_all is_ascii_digit s then Inr (digits_value s) else Inl ValueError)"

text \<open>\<open>str(n)\<close> for a natural number, and the format \<open>{i:2d}\<close> (right-aligned, width 2).\<close>

fun py_str_nat :: "nat \<Rightarrow> string" where
  "py_str_nat n =
     (if n < 10 then [char_of (48 + n)]
      else py_str_nat (n div 10) @ [char_of (48 + n mod 10)])"

declare py_str_nat.simps [simp del]

definition fmt_2d :: "nat \<Rightarrow> string" where
  "fmt_2d n = (if n < 10 then '' '' @ py_str_nat n else py_str_nat n)"

text \<open>
  \<open>shlex.quote\<close>: the empty string is written \<open>''\<close>; a string of safe characters
  (letters, digits and \<open>_@%+=:,./-\<close>) is left as it is; any other is put in single quotes,
  each single quote inside it written \<open>'"'"'\<close>.
\<close>

definition shlex_safe_char :: "char \<Rightarrow> bool" where
  "shlex_safe_char c =
     (let n = (of_char c :: nat)
      in (48 \<le> n \<and> n \<le> 57) \<or> (65 \<le> n \<and> n \<le> 90) \<or> (97 \<le> n \<and> n \<le> 122)
         \<or> c \<in> set ''_@%+=:,./-'')"

definition shlex_quote :: "string \<Rightarrow> string" where
  "shlex_quote s =
     (if s = [] then [CHR 0x27, CHR 0x27]
      else if list_all shlex_safe_char s then s
      else [CHR 0x27] @ py_replace_char (CHR 0x27) [CHR 0x27, CHR 0x22, CHR 0x27, CHR 0x22, CHR 0x27] s
           @ [CHR 0x27])"

section \<open>The environment alias (start\_development.py)\<close>

text \<open>\<open>norm_env\<close>: \<open>name.strip().lower().replace(' ', '-')\<close>.\<close>

definition norm_env :: "string \<Rightarrow> string" where
  "norm_env name = py_replace_char (CHR '' '') ''-'' (py_lower (py_strip name))"

section \<open>Processes, terminal and file system\<close>

text \<open>
  Everything the two wizards do to the outside is an event of a trace, in program order:
  a logger message with its level, a line printed on standard output, a prompt shown by
  \<open>input\<close>, a child process run by \<open>subprocess.run\<close> (its command, working directory,
  whether its output was captured, and how it ended) and a directory created.
  The outside answers through a \<open>world\<close>: how a child process ends and whether a path
  exists may depend on everything that happened before (the trace so far). The lines the
  operator types are the list \<open>stdin\<close>; \<open>input\<close> at its end raises \<open>EOFError\<close>.
\<close>

datatype level = HEADER | STEP | INFO | SUCCESS | WARNING | ERROR

datatype proc_result = Exited int string | NotStarted

datatype event =
    Log level string
  | Print string
  | Prompt string
  | Exec "string list" "string option" bool proc_result
  | Mkdir string

datatype failure = SystemExit int | Uncaught exn

record world =
  proc :: "event list \<Rightarrow> string list \<Rightarrow> string option \<Rightarrow> proc_result"
  path_exists :: "event list \<Rightarrow> string \<Rightarrow> bool"
  path_resolve :: "event list \<Rightarrow> string \<Rightarrow> string"
  path_join :: "string \<Rightarrow> string \<Rightarrow> string"
  repo_root :: string
  cwd_parents :: "string list"
  default_org_alias :: "string option"

record state =
  stdin :: "string list"
  trace :: "event list"

type_synonym 'a io = "state \<Rightarrow> (failure + 'a) \<times> state"

definition return_io :: "'a \<Rightarrow> 'a io" where
  "return_io x = (\<lambda>s. (Inr x, s))"

definition raise_io :: "failure \<Rightarrow> 'a io" where
  "raise_io e = (\<lambda>s. (Inl e, s))"

definition bind_io :: "'a io \<Rightarrow> ('a \<Rightarrow> 'b io) \<Rightarrow> 'b io" where
  "bind_io m f = (\<lambda>s. case m s of (Inl e, s') \<Rightarrow> (Inl e, s') | (Inr x, s') \<Rightarrow> f x s')"

definition emit :: "event \<Rightarrow> unit io" where
  "emit ev = (\<lambda>s. (Inr (), s\<lparr>trace := trace s @ [ev]\<rparr>))"

definition sys_exit :: "int \<Rightarrow> 'a io" where
  "sys_exit n = raise_io (SystemExit n)"

definition py_print :: "string \<Rightarrow> unit io" where
  "py_print line = emit (Print line)"

definition py_input :: "string \<Rightarrow> string io" where
  "py_input prompt = (\<lambda>s.
     case stdin s of
       [] \<Rightarrow> (Inl (Uncaught EOFError), s\<lparr>trace := trace s @ [Prompt prompt]\<rparr>)
     | line # rest \<Rightarrow> (Inr line, s\<lparr>stdin := rest, trace := trace s @ [Prompt prompt]\<rparr>))"

definition exists_io :: "world \<Rightarrow> string \<Rightarrow> bool io" where
  "exists_io w p = (\<lambda>s. (Inr (path_exists w (trace s) p), s))"

definition resolve_io :: "world \<Rightarrow> string \<Rightarrow> string io" where
  "resolve_io w p = (\<lambda>s. (Inr (path_resolve w (trace s) p), s))"

text \<open>
  \<open>subprocess.run(cmd, check=True, ...)\<close>: the child runs to its end. It returns the
  completed process (with the captured text when capturing), raises \<open>CalledProcessError\<close>
  (carrying the captured text) on a non-zero exit status, and \<open>OSError\<close> when the program
  cannot be started. \<open>CalledProcessError\<close> is the one exception the callers catch, so it is
  a value here.
\<close>

datatype completed = Completed "string option" | CalledProcessError "string option"

definition subprocess_run :: "world \<Rightarrow> string list \<Rightarrow> string option \<Rightarrow> bool \<Rightarrow> completed io" where
  "subprocess_run w cmd cwd capture = (\<lambda>s.
     let r = proc w (trace s) cmd cwd;
         s' = s\<lparr>trace := trace s @ [Exec cmd cwd capture r]\<rparr>
     in case r of
          NotStarted \<Rightarrow> (Inl (Uncaught OSError), s')
        | Exited rc out \<Rightarrow>
            (Inr ((if rc = 0 then Completed else CalledProcessError)
                    (if capture then Some out else None)), s'))"

subsection \<open>logger.py\<close>

definition logger_header :: "string \<Rightarrow> unit io" where
  "logger_header message = emit (Log HEADER message)"

definition logger_info :: "string \<Rightarrow> unit io" where
  "logger_info message = emit (Log INFO message)"

definition logger_step :: "string \<Rightarrow> unit io" where
  "logger_step message = emit (Log STEP (''************ '' @ message @ '' ************''))"

definition logger_status :: "string \<Rightarrow> unit io" where
  "logger_status message = emit (Log INFO message)"

definition logger_success :: "string \<Rightarrow> unit io" where
  "logger_success message = emit (Log SUCCESS message)"

definition logger_warning :: "string \<Rightarrow> unit io" where
  "logger_warning message = emit (Log WARNING message)"

definition logger_error :: "string \<Rightarrow> unit io" where
  "logger_error message = emit (Log ERROR message)"

section \<open>pull\_metadata.py\<close>

definition squote :: string where
  "squote = [CHR 0x27]"

definition print_captured :: "string option \<Rightarrow> unit io" where
  "print_captured out = (case out of None \<Rightarrow> return_io () | Some t \<Rightarrow> if t = [] then return_io () else py_print t)"

definition run :: "world \<Rightarrow> string list \<Rightarrow> string option \<Rightarrow> bool \<Rightarrow> string option io" where
  "run w cmd cwd passthrough =
     (let pretty = py_join '' '' (map shlex_quote cmd) in
      bind_io (logger_status (''$ '' @ pretty)) (\<lambda>_.
      bind_io (subprocess_run w cmd cwd (\<not> passthrough)) (\<lambda>r.
        case r of
          Completed out \<Rightarrow> bind_io (logger_success pretty) (\<lambda>_. return_io out)
        | CalledProcessError out \<Rightarrow>
            bind_io (logger_error (''FAILED: '' @ pretty)) (\<lambda>_.
            bind_io (print_captured out) (\<lambda>_. sys_exit 1)))))"

fun first_marked :: "world \<Rightarrow> event list \<Rightarrow> string list \<Rightarrow> string option" where
  "first_marked w tr [] = None"
| "first_marked w tr (parent # rest) =
     (if path_exists w tr (path_join w parent ''sfdx-project.json'') then Some parent
      else first_marked w tr rest)"

text \<open>
  \<open>find_project_root\<close>: \<open>cwd_parents\<close> is the list \<open>[p, *p.parents]\<close> of the resolved
  current directory.
\<close>

definition first_marked_io :: "world \<Rightarrow> string option io" where
  "first_marked_io w = (\<lambda>s. (Inr (first_marked w (trace s) (cwd_parents w)), s))"

definition find_project_root :: "world \<Rightarrow> string io" where
  "find_project_root w =
     bind_io (first_marked_io w) (\<lambda>found.
     case found of
       Some parent \<Rightarrow> return_io parent
     | None \<Rightarrow>
         bind_io (logger_error (''Couldn'' @ squote @ ''t find sfdx-project.json up the directory tree.''))
           (\<lambda>_. sys_exit 1))"

definition truthy :: "string option \<Rightarrow> bool" where
  "truthy x = (case x of None \<Rightarrow> False | Some t \<Rightarrow> t \<noteq> [])"

definition ask :: "string \<Rightarrow> string option \<Rightarrow> string io" where
  "ask prompt dflt =
     (let suffix = (if truthy dflt then '' ['' @ the dflt @ ''] '' else '' '') in
      bind_io (py_input (prompt @ suffix)) (\<lambda>line.
      let val = py_strip line in
      return_io (if val \<noteq> [] then val else if truthy dflt then the dflt else [])))"

definition ask_bool :: "string \<Rightarrow> bool \<Rightarrow> bool io" where
  "ask_bool prompt dflt =
     (let suffix = (if dflt then '' [Y/n] '' else '' [y/N] '') in
      bind_io (py_input (prompt @ suffix)) (\<lambda>line.
      let val = py_lower (py_strip line) in
      return_io (if val = [] then dflt else val \<in> {''y'', ''yes''})))"

fun list_options :: "nat \<Rightarrow> string list \<Rightarrow> unit io" where
  "list_options i [] = return_io ()"
| "list_options i (opt # opts) =
     bind_io (py_print (''  '' @ fmt_2d i @ '') '' @ opt)) (\<lambda>_. list_options (Suc i) opts)"

text \<open>The loop of \<open>choose_many\<close> over the tokens of the input, \<open>picks\<close> being the list built so far.\<close>

fun choose_tokens :: "string list \<Rightarrow> string list \<Rightarrow> string list \<Rightarrow> string list io" where
  "choose_tokens options [] picks = return_io picks"
| "choose_tokens options (tok # rest) picks =
     (let token = py_strip tok in
      if token = [] then choose_tokens options rest picks
      else if \<not> py_isdigit token then
        bind_io (logger_warning (''Ignoring '' @ squote @ token @ squote @ '' (not a number).''))
          (\<lambda>_. choose_tokens options rest picks)
      else
        (case py_int token of
           Inl e \<Rightarrow> raise_io (Uncaught e)
         | Inr idx \<Rightarrow>
             if 1 \<le> idx \<and> idx \<le> int (length options)
             then choose_tokens options rest (picks @ [options ! nat (idx - 1)])
             else bind_io (logger_warning (''Ignoring '' @ squote @ token @ squote @ '' (out of range).''))
                    (\<lambda>_. choose_tokens options rest picks)))"

definition choose_many :: "string \<Rightarrow> string list \<Rightarrow> string list io" where
  "choose_many prompt options =
     bind_io (py_print []) (\<lambda>_.
     bind_io (logger_info prompt) (\<lambda>_.
     bind_io (list_options 1 options) (\<lambda>_.
     bind_io (py_print []) (\<lambda>_.
     bind_io (py_input ''Enter number(s) separated by comma, or leave blank to cancel: '') (\<lambda>line.
     let raw = py_strip line in
     if raw = [] then return_io []
     else choose_tokens options (py_split (CHR '','') raw) [])))))"

definition CURATED_TYPES :: "string list" where
  "CURATED_TYPES =
     [''ApexClass'', ''ApexTrigger'', ''ApexPage'', ''ApexComponent'',
      ''LightningComponentBundle'', ''AuraDefinitionBundle'', ''LightningMessageChannel'',
      ''CustomObject'', ''CustomField'', ''Layout'', ''RecordType'', ''Flow'',
      ''FlowDefinition'', ''ValidationRule'', ''PermissionSet'', ''PermissionSetGroup'',
      ''Profile'', ''FlexiPage'', ''GlobalValueSet'', ''StaticResource'',
      ''CustomApplication'', ''CustomTab'', ''RemoteSiteSetting'', ''NamedCredential'',
      ''ConnectedApp'', ''EmailTemplate'', ''Report'', ''Dashboard'', ''ReportType'',
      ''Translations'']"

definition pull_everything :: "world \<Rightarrow> string \<Rightarrow> string \<Rightarrow> bool \<Rightarrow> unit io" where
  "pull_everything w project_root target_org ignore_conflicts =
     (let cmd = [''sf'', ''project'', ''retrieve'', ''start'', ''--target-org'', target_org];
          cmd = (if ignore_conflicts then cmd @ [''--ignore-conflicts''] else cmd)
      in bind_io (run w cmd (Some project_root) True) (\<lambda>_. return_io ()))"

text \<open>The comprehension \<open>[t.strip() for t in text.split(",") if t.strip()]\<close>.\<close>

definition stripped_items :: "string \<Rightarrow> string list" where
  "stripped_items text = filter (\<lambda>t. t \<noteq> []) (map py_strip (py_split (CHR '','') text))"

definition pull_by_types :: "world \<Rightarrow> string \<Rightarrow> string \<Rightarrow> bool \<Rightarrow> unit io" where
  "pull_by_types w project_root target_org ignore_conflicts =
     bind_io (choose_many ''Select metadata types to retrieve:'' CURATED_TYPES) (\<lambda>picks.
     bind_io (py_print []) (\<lambda>_.
     bind_io (ask (''Optionally enter additional types (comma-separated), e.g. '' @ squote
                   @ ''NamedCredential,CustomMetadata'' @ squote @ '':'') None) (\<lambda>extra.
     let extra = py_strip extra;
         types = (if extra \<noteq> [] then picks @ stripped_items extra else picks)
     in if types = [] then logger_warning ''No types selected. Nothing to do.''
        else
          (let cmd = [''sf'', ''project'', ''retrieve'', ''start'', ''--target-org'', target_org];
               cmd = cmd @ concat (map (\<lambda>t. [''--metadata'', t @ '':*'']) types);
               cmd = (if ignore_conflicts then cmd @ [''--ignore-conflicts''] else cmd)
           in bind_io (run w cmd (Some project_root) True) (\<lambda>_. return_io ())))))"

definition pull_by_paths :: "world \<Rightarrow> string \<Rightarrow> string \<Rightarrow> bool \<Rightarrow> unit io" where
  "pull_by_paths w project_root target_org ignore_conflicts =
     bind_io (logger_info ''Enter one or more project paths (relative to repo root),'') (\<lambda>_.
     bind_io (logger_info ''for example:'') (\<lambda>_.
     bind_io (logger_info ''  force-app/main/default/classes'') (\<lambda>_.
     bind_io (logger_info ''  force-app/main/default/objects/Account'') (\<lambda>_.
     bind_io (logger_info ''Separate multiple entries with commas.'') (\<lambda>_.
     bind_io (py_print []) (\<lambda>_.
     bind_io (py_input ''Paths: '') (\<lambda>line.
     let raw = py_strip line in
     if raw = [] then logger_warning ''No paths provided. Nothing to do.''
     else
       (let paths = stripped_items raw;
            cmd = [''sf'', ''project'', ''retrieve'', ''start'', ''--target-org'', target_org];
            cmd = cmd @ concat (map (\<lambda>p. [''--source-dir'', p]) paths);
            cmd = (if ignore_conflicts then cmd @ [''--ignore-conflicts''] else cmd)
        in bind_io (run w cmd (Some project_root) True) (\<lambda>_. return_io ())))))))))"

text \<open>
  The branch of \<open>pull_by_manifest\<close> that finds the manifest: \<open>Some\<close> its path, or \<open>None\<close>
  where the source returns early on an invalid choice.
\<close>

definition manifest_choice :: "world \<Rightarrow> string \<Rightarrow> string \<Rightarrow> string \<Rightarrow> string option io" where
  "manifest_choice w project_root target_org choice =
     (if choice = ''1'' then
        (let default_manifest = path_join w (path_join w project_root ''manifest'') ''package.xml'' in
         bind_io (exists_io w default_manifest) (\<lambda>found.
         bind_io (ask ''Path to package.xml''
                    (Some (if found then default_manifest else ''manifest/package.xml''))) (\<lambda>mp.
         bind_io (resolve_io w (path_join w project_root mp)) (\<lambda>manifest_path.
         bind_io (exists_io w manifest_path) (\<lambda>present.
         if \<not> present then
           bind_io (logger_error (''package.xml not found at: '' @ manifest_path)) (\<lambda>_. sys_exit 1)
         else return_io (Some manifest_path))))))
      else if choice = ''2'' then
        (let out_dir = path_join w project_root ''manifest'' in
         bind_io (emit (Mkdir out_dir)) (\<lambda>_.
         bind_io (run w [''sf'', ''project'', ''generate'', ''manifest'',
                         ''--from-org'', target_org, ''--output-dir'', out_dir]
                    (Some project_root) True) (\<lambda>_.
         let manifest_path = path_join w out_dir ''package.xml'' in
         bind_io (exists_io w manifest_path) (\<lambda>present.
         if \<not> present then
           bind_io (logger_error ''Failed to generate manifest/package.xml'') (\<lambda>_. sys_exit 1)
         else return_io (Some manifest_path)))))
      else bind_io (logger_warning ''Invalid choice; aborting manifest flow.'') (\<lambda>_. return_io None))"

definition pull_by_manifest :: "world \<Rightarrow> string \<Rightarrow> string \<Rightarrow> bool \<Rightarrow> unit io" where
  "pull_by_manifest w project_root target_org ignore_conflicts =
     bind_io (logger_info ''Choose one:'') (\<lambda>_.
     bind_io (py_print ''  1) Use existing package.xml'') (\<lambda>_.
     bind_io (py_print ''  2) Generate package.xml from org, then retrieve'') (\<lambda>_.
     bind_io (py_input ''Enter 1 or 2: '') (\<lambda>line.
     bind_io (manifest_choice w project_root target_org (py_strip line)) (\<lambda>found.
     case found of
       None \<Rightarrow> return_io ()
     | Some manifest_path \<Rightarrow>
         (let cmd = [''sf'', ''project'', ''retrieve'', ''start'', ''--target-org'', target_org,
                     ''--manifest'', manifest_path];
              cmd = (if ignore_conflicts then cmd @ [''--ignore-conflicts''] else cmd)
          in bind_io (run w cmd (Some project_root) True) (\<lambda>_. return_io ())))))))"

definition reset_tracking :: "world \<Rightarrow> string \<Rightarrow> string \<Rightarrow> unit io" where
  "reset_tracking w project_root target_org =
     bind_io (logger_warning
       ''This will reset local source tracking. Useful when the workspace and org drift.'') (\<lambda>_.
     bind_io (ask_bool ''Proceed with reset?'' False) (\<lambda>go.
     if \<not> go then logger_info ''Canceled.''
     else bind_io (run w [''sf'', ''project'', ''reset'', ''tracking'', ''--target-org'', target_org,
                          ''--no-prompt''] (Some project_root) True) (\<lambda>_. return_io ())))"

section \<open>start\_development.py\<close>

text \<open>
  The paths the module computes from its own location: \<open>repo_root\<close> is \<open>REPO_ROOT\<close>
  (and \<open>SFDX_PROJECT_DIR\<close>).
\<close>

definition SCRATCH_DEF :: "world \<Rightarrow> string" where
  "SCRATCH_DEF w = path_join w (path_join w (repo_root w) ''config'') ''project-scratch-def.json''"

definition SOURCE_DIR :: "world \<Rightarrow> string" where
  "SOURCE_DIR w = path_join w (repo_root w) ''force-app''"

definition run_subprocess :: "world \<Rightarrow> string list \<Rightarrow> bool \<Rightarrow> string option \<Rightarrow> string option io" where
  "run_subprocess w cmd_list passthrough cwd =
     (let cmd_str = py_join '' '' cmd_list in
      bind_io (logger_status (''$ '' @ cmd_str)) (\<lambda>_.
      bind_io (subprocess_run w cmd_list cwd (\<not> passthrough)) (\<lambda>r.
        case r of
          Completed out \<Rightarrow> bind_io (logger_success cmd_str) (\<lambda>_. return_io out)
        | CalledProcessError out \<Rightarrow>
            bind_io (logger_error (''FAILED: '' @ cmd_str)) (\<lambda>_.
            bind_io (print_captured out) (\<lambda>_. sys_exit 1)))))"

text \<open>\<open>x or ''\<close> for the text a captured run returns.\<close>

definition or_empty :: "string option \<Rightarrow> string" where
  "or_empty x = (case x of None \<Rightarrow> [] | Some t \<Rightarrow> t)"

record start_args =
  environment :: string
  review :: bool
  devhub_url :: string
  force_devhub_connection :: bool
  preview :: bool

definition bq :: string where
  "bq = [CHR 0x60]"

definition git_prepare_branch :: "world \<Rightarrow> string \<Rightarrow> bool \<Rightarrow> unit io" where
  "git_prepare_branch w environment_name review_mode =
     bind_io (logger_step ''GITHUB'') (\<lambda>_.
     bind_io (logger_status (''Checking out '' @ bq @ ''main'' @ bq
                @ '' branch and getting latest update from Github ...'')) (\<lambda>_.
     bind_io (run_subprocess w [''git'', ''checkout'', ''main''] True None) (\<lambda>_.
     bind_io (run_subprocess w [''git'', ''pull'', ''origin'', ''main''] True None) (\<lambda>_.
     if \<not> review_mode then
       bind_io (logger_status (''Create and push feature branch from '' @ bq @ ''main'' @ bq)) (\<lambda>_.
       bind_io (logger_status ''Creating new development branch ...'') (\<lambda>_.
       bind_io (run_subprocess w [''git'', ''checkout'', ''-b'', environment_name, ''main''] True None)
         (\<lambda>_. return_io ())))
     else
       bind_io (logger_status ''--- Review mode ---'') (\<lambda>_.
       bind_io (logger_status ''Checking out development branch ...'') (\<lambda>_.
       bind_io (run_subprocess w [''git'', ''branch'', ''--list'', environment_name] False None) (\<lambda>r.
       let existing_git_branch = or_empty r in
       bind_io (if py_in environment_name existing_git_branch then
                  bind_io (logger_status ''Deleting local branch ...'') (\<lambda>_.
                  bind_io (run_subprocess w [''git'', ''branch'', ''-D'', environment_name] True None)
                    (\<lambda>_. return_io ()))
                else return_io ()) (\<lambda>_.
       bind_io (run_subprocess w [''git'', ''checkout'', ''-b'', environment_name,
                                  ''origin/'' @ environment_name] True None)
         (\<lambda>_. return_io ())))))))))"

definition check_sfcli_exists :: "world \<Rightarrow> unit io" where
  "check_sfcli_exists w =
     bind_io (logger_step ''CHECK SF CLI'') (\<lambda>_.
     bind_io (logger_status ''Validating SFDC Binary is available ...'') (\<lambda>_.
     bind_io (run_subprocess w [''sf'', ''--version''] False None) (\<lambda>_. return_io ())))"

definition login_devhub :: "world \<Rightarrow> string \<Rightarrow> bool \<Rightarrow> unit io" where
  "login_devhub w url force_auth =
     bind_io (logger_step ''CHECK SFDX LOGIN STATUS'') (\<lambda>_.
     bind_io (logger_status ''Checking SFDX Devhub login status ...'') (\<lambda>_.
     bind_io (logger_status ''Retrieving list of Salesforce Orgs ...'') (\<lambda>_.
     bind_io (logger_step ''AUTHORIZING DEV HUB'') (\<lambda>_.
     bind_io (run_subprocess w [''sf'', ''org'', ''list''] False None) (\<lambda>r.
     let orgs = or_empty r in
     bind_io (if force_auth \<or> \<not> py_in ''DevHub'' orgs then
                bind_io (logger_status ''Logging into Dev Hub ...'') (\<lambda>_.
                bind_io (run_subprocess w [''sf'', ''org'', ''login'', ''web'', ''--alias'', ''DevHub'',
                                           ''--set-default-dev-hub'', ''--instance-url'', url] True None)
                  (\<lambda>_. return_io ()))
              else logger_status (''Using existing Dev Hub alias '' @ bq @ ''DevHub'' @ bq @ ''.'')) (\<lambda>_.
     bind_io (run_subprocess w [''sf'', ''org'', ''list''] False None) (\<lambda>r.
     let orgs = or_empty r in
     if \<not> py_in ''DevHub'' orgs then
       bind_io (logger_error ''Devhub alias not found after login'') (\<lambda>_. sys_exit 1)
     else return_io ())))))))"

definition create_scratch_org :: "world \<Rightarrow> string \<Rightarrow> bool \<Rightarrow> bool \<Rightarrow> unit io" where
  "create_scratch_org w environment_name review_mode preview_mode =
     bind_io (logger_step ''CREATE SCRATCH ORG'') (\<lambda>_.
     bind_io (logger_status ''Attempting to deploy new Scratch Org...'') (\<lambda>_.
     bind_io (exists_io w (SCRATCH_DEF w)) (\<lambda>present.
     if \<not> present then
       bind_io (logger_error (''Scratch definition not found: '' @ SCRATCH_DEF w)) (\<lambda>_. sys_exit 1)
     else
       (let duration_in_days = (if review_mode then ''7'' else ''30'');
            scratch_org_creation_cmd =
              [''sf'', ''org'', ''create'', ''scratch'',
               ''--definition-file'', SCRATCH_DEF w,
               ''--alias'', environment_name,
               ''--duration-days'', duration_in_days,
               ''--set-default''];
            scratch_org_creation_cmd =
              (if preview_mode then scratch_org_creation_cmd @ [''--release'', ''Preview'']
               else scratch_org_creation_cmd)
        in bind_io (run_subprocess w scratch_org_creation_cmd True None) (\<lambda>_. return_io ())))))"

definition deploy_source_metadata :: "world \<Rightarrow> string \<Rightarrow> unit io" where
  "deploy_source_metadata w environment_name =
     bind_io (logger_step ''DEPLOY SOURCE'') (\<lambda>_.
     bind_io (exists_io w (repo_root w)) (\<lambda>present.
     if \<not> present then
       bind_io (logger_error (''Project directory not found: '' @ repo_root w)) (\<lambda>_. sys_exit 1)
     else
       bind_io (logger_status ''Deploying force-app to scratch org ...'') (\<lambda>_.
       bind_io (run_subprocess w [''sf'', ''project'', ''deploy'', ''start'',
                                  ''--target-org'', environment_name,
                                  ''--source-dir'', SOURCE_DIR w] True (Some (repo_root w)))
         (\<lambda>_. return_io ()))))"

definition open_scratch_org :: "world \<Rightarrow> string \<Rightarrow> bool \<Rightarrow> unit io" where
  "open_scratch_org w environment_name review_mode =
     bind_io (logger_step ''OPEN ORG'') (\<lambda>_.
     bind_io (logger_status ''Opening the scratch org in your browser ...'') (\<lambda>_.
     bind_io (run_subprocess w [''sf'', ''org'', ''open'', ''--target-org'', environment_name] True None)
       (\<lambda>_. return_io ())))"

text \<open>
  \<open>main\<close> of start\_development.py, from the parsed arguments on (a command line that
  \<open>argparse\<close> rejects never reaches it).
\<close>

definition start_main :: "world \<Rightarrow> start_args \<Rightarrow> unit io" where
  "start_main w args =
     bind_io (logger_header ''Scratch Org Script'') (\<lambda>_.
     let raw_env = environment args;
         env = norm_env raw_env;
         scratch_alias = (if review args then env @ ''-review'' else env)
     in
     bind_io (logger_status (''Environment (raw): '' @ raw_env)) (\<lambda>_.
     bind_io (logger_status (''Normalized alias: '' @ scratch_alias)) (\<lambda>_.
     bind_io (git_prepare_branch w env (review args)) (\<lambda>_.
     bind_io (logger_success ''Git branch ready.'') (\<lambda>_.
     bind_io (check_sfcli_exists w) (\<lambda>_.
     bind_io (login_devhub w (devhub_url args) (force_devhub_connection args)) (\<lambda>_.
     bind_io (logger_success ''Dev Hub ready.'') (\<lambda>_.
     bind_io (create_scratch_org w scratch_alias (review args) (preview args)) (\<lambda>_.
     bind_io (logger_success ''Scratch org created.'') (\<lambda>_.
     bind_io (deploy_source_metadata w scratch_alias) (\<lambda>_.
     bind_io (logger_success ''Source deployed.'') (\<lambda>_.
     bind_io (open_scratch_org w scratch_alias (review args)) (\<lambda>_.
     logger_success ''All done. Happy building!'')))))))))))))"

section \<open>Facts about the string functions\<close>

lemma py_replace_char_single:
  "py_replace_char old [new] s = map (\<lambda>c. if c = old then new else c) s"
  by (induction s) (simp_all add: py_replace_char_def)

lemma py_lower_char_idem: "py_lower_char (py_lower_char c) = py_lower_char c"
  by (auto simp add: py_lower_char_def Let_def)

lemma py_isspace_lower_char: "py_isspace (py_lower_char c) = py_isspace c"
  by (auto simp add: py_lower_char_def py_isspace_def Let_def)

lemma py_strip_noop:
  assumes "s = [] \<or> (\<not> py_isspace (hd s) \<and> \<not> py_isspace (last s))"
  shows "py_strip s = s"
proof (cases s)
  case Nil
  then show ?thesis by (simp add: py_strip_def)
next
  case (Cons c cs)
  with assms have h: "\<not> py_isspace c" and l: "\<not> py_isspace (last s)" by auto
  from h Cons have d1: "dropWhile py_isspace s = s" by simp
  have "hd (rev s) = last s" by (simp add: hd_rev)
  with l have "rev s = [] \<or> \<not> py_isspace (hd (rev s))" by simp
  then have d2: "dropWhile py_isspace (rev s) = rev s"
    by (simp only: dropWhile_eq_self_iff)
  show ?thesis by (simp add: py_strip_def d1 d2)
qed

lemma py_strip_ends:
  assumes "py_strip s \<noteq> []"
  shows "\<not> py_isspace (hd (py_strip s)) \<and> \<not> py_isspace (last (py_strip s))"
proof -
  let ?a = "dropWhile py_isspace s"
  let ?b = "dropWhile py_isspace (rev ?a)"
  from assms have b: "?b \<noteq> []" by (simp add: py_strip_def)
  then have "\<not> py_isspace (hd ?b)" by (rule hd_dropWhile)
  then have l: "\<not> py_isspace (last (py_strip s))"
    using b by (simp add: py_strip_def last_rev)
  have a: "?a \<noteq> []"
  proof
    assume "?a = []"
    then have "?b = []" by (simp only: rev.simps dropWhile.simps)
    with b show False by blast
  qed
  then have ha: "\<not> py_isspace (hd ?a)" by (rule hd_dropWhile)
  have "\<not> py_isspace (last (rev ?a))" using a ha by (simp add: last_rev)
  moreover have "rev ?a \<noteq> []" using a by simp
  ultimately have "last ?b = last (rev ?a)"
    by (metis b dropWhile_eq_Nil_conv last_appendR takeWhile_dropWhile_id)
  then have "hd (py_strip s) = hd ?a"
    using a b by (simp add: py_strip_def hd_rev last_rev)
  with ha l show ?thesis by simp
qed

definition norm_char :: "char \<Rightarrow> char" where
  "norm_char c = (if py_lower_char c = CHR '' '' then CHR ''-'' else py_lower_char c)"

lemma norm_env_map: "norm_env name = map norm_char (py_strip name)"
  by (simp add: norm_env_def py_lower_def py_replace_char_single norm_char_def)

lemma norm_char_idem: "norm_char (norm_char c) = norm_char c"
  by (auto simp add: norm_char_def py_lower_char_idem) (simp_all add: py_lower_char_def)

lemma norm_char_not_space: "\<not> py_isspace c \<Longrightarrow> \<not> py_isspace (norm_char c)"
  by (auto simp add: norm_char_def py_isspace_lower_char) (simp add: py_isspace_def)

lemma py_strip_Nil: "py_strip [] = []"
  by (simp add: py_strip_def)

lemma py_strip_norm: "py_strip (map norm_char (py_strip s)) = map norm_char (py_strip s)"
proof (cases "py_strip s = []")
  case True
  then show ?thesis by (simp add: py_strip_Nil)
next
  case False
  from py_strip_ends[OF False] False show ?thesis
    by (intro py_strip_noop) (simp add: hd_map last_map norm_char_not_space)
qed

lemma norm_env_example: "norm_env ''FE Hello'' = ''fe-hello''"
  by code_simp

text \<open>
  C3: \<open>norm_env\<close> is idempotent: normalizing a normalized name changes nothing; and
  \<open>"FE Hello"\<close> normalizes to \<open>"fe-hello"\<close>.
\<close>

theorem norm_env_idempotent:
  "norm_env (norm_env name) = norm_env name \<and> norm_env ''FE Hello'' = ''fe-hello''"
  by (simp add: norm_env_map py_strip_norm norm_char_idem norm_env_example[unfolded norm_env_map])

section \<open>A program logic for the wizards\<close>

text \<open>
  \<open>triple P m Q E\<close>: started in a state satisfying \<open>P\<close>, the program \<open>m\<close> either returns
  a value \<open>x\<close> in a state satisfying \<open>Q x\<close>, or fails with \<open>e\<close> in a state satisfying
  \<open>E e\<close>. Every program of the model is total, so one of the two happens.
\<close>

definition app :: "event list \<Rightarrow> state \<Rightarrow> state" where
  "app evs s = s\<lparr>trace := trace s @ evs\<rparr>"

definition triple :: "(state \<Rightarrow> bool) \<Rightarrow> 'a io \<Rightarrow> ('a \<Rightarrow> state \<Rightarrow> bool) \<Rightarrow> (failure \<Rightarrow> state \<Rightarrow> bool) \<Rightarrow> bool" where
  "triple P m Q E = (\<forall>s. P s \<longrightarrow> (case m s of (Inl e, s') \<Rightarrow> E e s' | (Inr x, s') \<Rightarrow> Q x s'))"

lemma tripleI:
  assumes "\<And>s e s'. P s \<Longrightarrow> m s = (Inl e, s') \<Longrightarrow> E e s'"
    and "\<And>s x s'. P s \<Longrightarrow> m s = (Inr x, s') \<Longrightarrow> Q x s'"
  shows "triple P m Q E"
  using assms by (auto simp: triple_def split: prod.splits sum.splits)

lemma tripleD_Inr: "triple P m Q E \<Longrightarrow> P s \<Longrightarrow> m s = (Inr x, s') \<Longrightarrow> Q x s'"
  by (auto simp: triple_def split: prod.splits sum.splits)

lemma tripleD_Inl: "triple P m Q E \<Longrightarrow> P s \<Longrightarrow> m s = (Inl e, s') \<Longrightarrow> E e s'"
  by (auto simp: triple_def split: prod.splits sum.splits)

lemma triple_return: "(\<And>s. P s \<Longrightarrow> Q x s) \<Longrightarrow> triple P (return_io x) Q E"
  by (simp add: triple_def return_io_def)

lemma triple_raise: "(\<And>s. P s \<Longrightarrow> E e s) \<Longrightarrow> triple P (raise_io e) Q E"
  by (simp add: triple_def raise_io_def)

lemma triple_bind:
  assumes "triple P m R E" and "\<And>x. triple (R x) (f x) Q E"
  shows "triple P (bind_io m f) Q E"
proof (rule tripleI)
  fix s e s' assume P: "P s" and r: "bind_io m f s = (Inl e, s')"
  show "E e s'"
  proof (cases "m s")
    case (Pair a s1)
    show ?thesis
    proof (cases a)
      case (Inl e1)
      with Pair r have "e1 = e" "s1 = s'" by (simp_all add: bind_io_def)
      with tripleD_Inl[OF assms(1) P] Pair Inl show ?thesis by simp
    next
      case (Inr x)
      with Pair r have "f x s1 = (Inl e, s')" by (simp add: bind_io_def)
      moreover have "R x s1" using tripleD_Inr[OF assms(1) P] Pair Inr by simp
      ultimately show ?thesis using tripleD_Inl[OF assms(2)] by blast
    qed
  qed
next
  fix s y s' assume P: "P s" and r: "bind_io m f s = (Inr y, s')"
  show "Q y s'"
  proof (cases "m s")
    case (Pair a s1)
    show ?thesis
    proof (cases a)
      case (Inl e1)
      with Pair r show ?thesis by (simp add: bind_io_def)
    next
      case (Inr x)
      with Pair r have "f x s1 = (Inr y, s')" by (simp add: bind_io_def)
      moreover have "R x s1" using tripleD_Inr[OF assms(1) P] Pair Inr by simp
      ultimately show ?thesis using tripleD_Inr[OF assms(2)] by blast
    qed
  qed
qed

lemma triple_conseq:
  assumes "triple P' m Q' E'" and "\<And>s. P s \<Longrightarrow> P' s" and "\<And>x s. Q' x s \<Longrightarrow> Q x s"
    and "\<And>e s. E' e s \<Longrightarrow> E e s"
  shows "triple P m Q E"
  using assms unfolding triple_def by (fastforce split: prod.splits sum.splits)

lemma triple_emit: "(\<And>s. P s \<Longrightarrow> Q () (app [ev] s)) \<Longrightarrow> triple P (emit ev) Q E"
  by (simp add: triple_def emit_def app_def)

lemma triple_input:
  assumes "\<And>s. P s \<Longrightarrow> stdin s = [] \<Longrightarrow> E (Uncaught EOFError) (app [Prompt p] s)"
    and "\<And>s l r. P s \<Longrightarrow> stdin s = l # r \<Longrightarrow> Q l (app [Prompt p] (s\<lparr>stdin := r\<rparr>))"
  shows "triple P (py_input p) Q E"
  using assms by (auto simp: triple_def py_input_def app_def split: list.splits)

lemma triple_exists: "(\<And>s. P s \<Longrightarrow> Q (path_exists w (trace s) p) s) \<Longrightarrow> triple P (exists_io w p) Q E"
  by (simp add: triple_def exists_io_def)

lemma triple_resolve: "(\<And>s. P s \<Longrightarrow> Q (path_resolve w (trace s) p) s) \<Longrightarrow> triple P (resolve_io w p) Q E"
  by (simp add: triple_def resolve_io_def)

text \<open>What a failed run leaves in the trace after the child's own event.\<close>

definition failure_events :: "string \<Rightarrow> bool \<Rightarrow> string \<Rightarrow> event list" where
  "failure_events shown passthrough out =
     Log ERROR (''FAILED: '' @ shown) # (if \<not> passthrough \<and> out \<noteq> [] then [Print out] else [])"

lemma run_shape:
  "run_subprocess w cmd pt cwd s =
     (let shown = py_join '' '' cmd;
          s1 = app [Log INFO (''$ '' @ shown)] s;
          r = proc w (trace s1) cmd cwd;
          s2 = app [Exec cmd cwd (\<not> pt) r] s1
      in case r of
           NotStarted \<Rightarrow> (Inl (Uncaught OSError), s2)
         | Exited rc out \<Rightarrow>
             if rc = 0 then (Inr (if pt then None else Some out), app [Log SUCCESS shown] s2)
             else (Inl (SystemExit 1), app (failure_events shown pt out) s2))"
  by (auto simp: run_subprocess_def Let_def bind_io_def logger_status_def emit_def subprocess_run_def
      app_def logger_success_def return_io_def logger_error_def print_captured_def sys_exit_def
      raise_io_def py_print_def failure_events_def split: proc_result.splits)


lemma pull_run_shape:
  "run w cmd cwd pt s =
     (let shown = py_join '' '' (map shlex_quote cmd);
          s1 = app [Log INFO (''$ '' @ shown)] s;
          r = proc w (trace s1) cmd cwd;
          s2 = app [Exec cmd cwd (\<not> pt) r] s1
      in case r of
           NotStarted \<Rightarrow> (Inl (Uncaught OSError), s2)
         | Exited rc out \<Rightarrow>
             if rc = 0 then (Inr (if pt then None else Some out), app [Log SUCCESS shown] s2)
             else (Inl (SystemExit 1), app (failure_events shown pt out) s2))"
  by (auto simp: run_def Let_def bind_io_def logger_status_def emit_def subprocess_run_def
      app_def logger_success_def return_io_def logger_error_def print_captured_def sys_exit_def
      raise_io_def py_print_def failure_events_def split: proc_result.splits)

fun is_exec :: "event \<Rightarrow> bool" where
  "is_exec (Exec cmd cwd capture r) = True"
| "is_exec ev = False"

definition basic :: "(state \<Rightarrow> bool) \<Rightarrow> (failure \<Rightarrow> state \<Rightarrow> bool) \<Rightarrow> bool" where
  "basic I E =
     ((\<forall>s ev. I s \<longrightarrow> \<not> is_exec ev \<longrightarrow> I (app [ev] s))
      \<and> (\<forall>s l r. I s \<longrightarrow> stdin s = l # r \<longrightarrow> I (s\<lparr>stdin := r\<rparr>))
      \<and> (\<forall>s e. I s \<longrightarrow> E e s))"

definition cmd_ok :: "(state \<Rightarrow> bool) \<Rightarrow> (failure \<Rightarrow> state \<Rightarrow> bool) \<Rightarrow> string list \<Rightarrow> bool" where
  "cmd_ok I E cmd =
     ((\<forall>s cwd cap. I s \<longrightarrow> E (Uncaught OSError) (app [Exec cmd cwd cap NotStarted] s))
      \<and> (\<forall>s cwd cap out. I s \<longrightarrow> I (app [Exec cmd cwd cap (Exited 0 out)] s))
      \<and> (\<forall>s cwd cap rc out evs. I s \<longrightarrow> rc \<noteq> 0 \<longrightarrow> list_all (\<lambda>ev. \<not> is_exec ev) evs \<longrightarrow>
            E (SystemExit 1) (app (Exec cmd cwd cap (Exited rc out) # evs) s)))"

definition guards :: "(state \<Rightarrow> bool) \<Rightarrow> (failure \<Rightarrow> state \<Rightarrow> bool) \<Rightarrow> 'a io \<Rightarrow> bool" where
  "guards I E m = triple I m (\<lambda>_. I) E"

lemma app_app: "app evs (app evs' s) = app (evs' @ evs) s"
  by (simp add: app_def)

lemma guards_return: "guards I E (return_io x)"
  by (simp add: guards_def triple_return)

lemma guards_raise: "basic I E \<Longrightarrow> guards I E (raise_io e)"
  by (simp add: guards_def triple_raise basic_def)

lemma guards_sys_exit: "basic I E \<Longrightarrow> guards I E (sys_exit n)"
  by (simp add: sys_exit_def guards_raise)

lemma guards_bind: "guards I E m \<Longrightarrow> (\<And>x. guards I E (f x)) \<Longrightarrow> guards I E (bind_io m f)"
  unfolding guards_def by (rule triple_bind)

lemma guards_if: "(c \<Longrightarrow> guards I E a) \<Longrightarrow> (\<not> c \<Longrightarrow> guards I E b) \<Longrightarrow> guards I E (if c then a else b)"
  by simp

lemma guards_case_option:
  "guards I E a \<Longrightarrow> (\<And>x. guards I E (f x)) \<Longrightarrow> guards I E (case v of None \<Rightarrow> a | Some x \<Rightarrow> f x)"
  by (cases v) simp_all

lemma guards_emit: "basic I E \<Longrightarrow> \<not> is_exec ev \<Longrightarrow> guards I E (emit ev)"
  by (simp add: guards_def triple_emit basic_def)

lemma guards_input: "basic I E \<Longrightarrow> guards I E (py_input p)"
  unfolding guards_def
proof (rule triple_input)
  fix s assume "basic I E" "I s"
  then have "I (app [Prompt p] s)" by (simp add: basic_def)
  with \<open>basic I E\<close> show "E (Uncaught EOFError) (app [Prompt p] s)" by (simp add: basic_def)
next
  fix s l r assume b: "basic I E" and "I s" "stdin s = l # r"
  then have "I (s\<lparr>stdin := r\<rparr>)" unfolding basic_def by blast
  with b show "I (app [Prompt p] (s\<lparr>stdin := r\<rparr>))" by (simp add: basic_def)
qed

lemma guards_exists: "guards I E (exists_io w p)"
  by (simp add: guards_def triple_exists)

lemma guards_resolve: "guards I E (resolve_io w p)"
  by (simp add: guards_def triple_resolve)

lemma guards_log:
  assumes "basic I E"
  shows "guards I E (logger_header m)" "guards I E (logger_info m)" "guards I E (logger_step m)"
    "guards I E (logger_status m)" "guards I E (logger_success m)" "guards I E (logger_warning m)"
    "guards I E (logger_error m)" "guards I E (py_print m)"
  using assms
  by (simp_all add: logger_header_def logger_info_def logger_step_def logger_status_def
      logger_success_def logger_warning_def logger_error_def py_print_def guards_emit)

lemma not_exec_failure_events: "list_all (\<lambda>ev. \<not> is_exec ev) (failure_events shown pt out)"
  by (simp add: failure_events_def)

lemma guards_shape:
  assumes b: "basic I E" and c: "cmd_ok I E cmd"
    and shape: "\<And>s. m s =
     (let s1 = app [Log INFO (''$ '' @ shown)] s;
          r = proc w (trace s1) cmd cwd;
          s2 = app [Exec cmd cwd (\<not> pt) r] s1
      in case r of
           NotStarted \<Rightarrow> (Inl (Uncaught OSError), s2)
         | Exited rc out \<Rightarrow>
             if rc = 0 then (Inr (if pt then None else Some out), app [Log SUCCESS shown] s2)
             else (Inl (SystemExit 1), app (failure_events shown pt out) s2))"
  shows "guards I E m"
  unfolding guards_def
proof (rule tripleI)
  fix s e s' assume I: "I s" and r: "m s = (Inl e, s')"
  let ?s1 = "app [Log INFO (''$ '' @ shown)] s"
  from b I have I1: "I ?s1" by (simp add: basic_def)
  show "E e s'"
  proof (cases "proc w (trace ?s1) cmd cwd")
    case NotStarted
    with r shape[of s] have "e = Uncaught OSError" "s' = app [Exec cmd cwd (\<not> pt) NotStarted] ?s1"
      by (simp_all add: Let_def)
    with c I1 show ?thesis unfolding cmd_ok_def by blast
  next
    case (Exited rc out)
    with r shape[of s] have rc: "rc \<noteq> 0" and e: "e = SystemExit 1"
      and s': "s' = app (failure_events shown pt out) (app [Exec cmd cwd (\<not> pt) (Exited rc out)] ?s1)"
      by (auto simp add: Let_def split: if_splits)
    from s' have "s' = app (Exec cmd cwd (\<not> pt) (Exited rc out) # failure_events shown pt out) ?s1"
      by (simp add: app_app)
    with c I1 rc e not_exec_failure_events[of shown pt out] show ?thesis
      unfolding cmd_ok_def by blast
  qed
next
  fix s x s' assume I: "I s" and r: "m s = (Inr x, s')"
  let ?s1 = "app [Log INFO (''$ '' @ shown)] s"
  from b I have I1: "I ?s1" by (simp add: basic_def)
  show "I s'"
  proof (cases "proc w (trace ?s1) cmd cwd")
    case NotStarted
    with r shape[of s] show ?thesis by (simp add: Let_def)
  next
    case (Exited rc out)
    with r shape[of s] have rc: "rc = 0"
      and s': "s' = app [Log SUCCESS shown] (app [Exec cmd cwd (\<not> pt) (Exited 0 out)] ?s1)"
      by (auto simp add: Let_def split: if_splits)
    from c I1 have "I (app [Exec cmd cwd (\<not> pt) (Exited 0 out)] ?s1)"
      unfolding cmd_ok_def by blast
    with b s' show ?thesis by (simp add: basic_def)
  qed
qed

lemma guards_run_subprocess:
  "basic I E \<Longrightarrow> cmd_ok I E cmd \<Longrightarrow> guards I E (run_subprocess w cmd pt cwd)"
  by (rule guards_shape[where shown = "py_join '' '' cmd"]) (simp_all add: run_shape Let_def)

lemma guards_run:
  "basic I E \<Longrightarrow> cmd_ok I E cmd \<Longrightarrow> guards I E (run w cmd cwd pt)"
  by (rule guards_shape[where shown = "py_join '' '' (map shlex_quote cmd)"])
     (simp_all add: pull_run_shape Let_def)

lemmas guards_intros = guards_return guards_raise guards_sys_exit guards_bind guards_if
  guards_case_option guards_emit guards_input guards_exists guards_resolve guards_log
  guards_run_subprocess guards_run

subsection \<open>The commands of the pull wizard\<close>

definition retrieve_cmd :: "string \<Rightarrow> string list \<Rightarrow> bool \<Rightarrow> string list" where
  "retrieve_cmd target_org filters ignore_conflicts =
     [''sf'', ''project'', ''retrieve'', ''start'', ''--target-org'', target_org] @ filters
     @ (if ignore_conflicts then [''--ignore-conflicts''] else [])"

definition flag_pairs :: "string \<Rightarrow> string list \<Rightarrow> string list" where
  "flag_pairs flag items = concat (map (\<lambda>x. [flag, x]) items)"

definition pull_command :: "world \<Rightarrow> string \<Rightarrow> string \<Rightarrow> bool \<Rightarrow> string list \<Rightarrow> bool" where
  "pull_command w project_root target_org ignore_conflicts cmd =
     (cmd = retrieve_cmd target_org [] ignore_conflicts
      \<or> (\<exists>types. types \<noteq> [] \<and>
            cmd = retrieve_cmd target_org (flag_pairs ''--metadata'' (map (\<lambda>t. t @ '':*'') types)) ignore_conflicts)
      \<or> (\<exists>paths. cmd = retrieve_cmd target_org (flag_pairs ''--source-dir'' paths) ignore_conflicts)
      \<or> (\<exists>manifest_path. cmd = retrieve_cmd target_org [''--manifest'', manifest_path] ignore_conflicts)
      \<or> cmd = [''sf'', ''project'', ''generate'', ''manifest'', ''--from-org'', target_org,
                ''--output-dir'', path_join w project_root ''manifest'']
      \<or> cmd = [''sf'', ''project'', ''reset'', ''tracking'', ''--target-org'', target_org, ''--no-prompt''])"

lemma guards_case_sum:
  "(\<And>x. guards I E (f x)) \<Longrightarrow> (\<And>y. guards I E (g y)) \<Longrightarrow> guards I E (case v of Inl x \<Rightarrow> f x | Inr y \<Rightarrow> g y)"
  by (cases v) simp_all

lemma guards_ask: "basic I E \<Longrightarrow> guards I E (ask p d)"
  unfolding ask_def Let_def by (intro guards_intros)

lemma guards_ask_bool: "basic I E \<Longrightarrow> guards I E (ask_bool p d)"
  unfolding ask_bool_def Let_def by (intro guards_intros)

lemma guards_list_options: "basic I E \<Longrightarrow> guards I E (list_options i opts)"
  by (induction opts arbitrary: i) (simp_all add: guards_intros)

lemma guards_choose_tokens: "basic I E \<Longrightarrow> guards I E (choose_tokens options toks picks)"
proof (induction toks arbitrary: picks)
  case Nil
  then show ?case by (simp add: guards_return)
next
  case (Cons t toks)
  show ?case
    unfolding choose_tokens.simps Let_def
    by (intro guards_intros guards_case_sum Cons)
qed

lemma guards_choose_many: "basic I E \<Longrightarrow> guards I E (choose_many p options)"
  unfolding choose_many_def Let_def
  by (intro guards_intros guards_list_options guards_choose_tokens)

lemma flag_pairs_concat: "concat (map (\<lambda>t. [flag, f t]) xs) = flag_pairs flag (map f xs)"
  by (simp add: flag_pairs_def comp_def)

lemma flag_pairs_concat_id: "concat (map (\<lambda>t. [flag, t]) xs) = flag_pairs flag xs"
  by (simp add: flag_pairs_def)

definition base_cmd :: "string \<Rightarrow> string list" where
  "base_cmd target_org = [''sf'', ''project'', ''retrieve'', ''start'', ''--target-org'', target_org]"

lemma pull_command_all:
  "pull_command w root org ic
     (if ic then [''sf'', ''project'', ''retrieve'', ''start'', ''--target-org'', org] @ [''--ignore-conflicts'']
      else [''sf'', ''project'', ''retrieve'', ''start'', ''--target-org'', org])"
  unfolding pull_command_def by (rule disjI1) (simp add: retrieve_cmd_def)

lemma pull_command_types:
  "types \<noteq> [] \<Longrightarrow> pull_command w root org ic
     (if ic then ([''sf'', ''project'', ''retrieve'', ''start'', ''--target-org'', org]
                  @ concat (map (\<lambda>t. [''--metadata'', t @ '':*'']) types)) @ [''--ignore-conflicts'']
      else [''sf'', ''project'', ''retrieve'', ''start'', ''--target-org'', org]
           @ concat (map (\<lambda>t. [''--metadata'', t @ '':*'']) types))"
  unfolding pull_command_def
  by (rule disjI2, rule disjI1, rule exI[of _ types]) (simp add: retrieve_cmd_def flag_pairs_def comp_def)

lemma pull_command_paths:
  "pull_command w root org ic
     (if ic then ([''sf'', ''project'', ''retrieve'', ''start'', ''--target-org'', org]
                  @ concat (map (\<lambda>p. [''--source-dir'', p]) paths)) @ [''--ignore-conflicts'']
      else [''sf'', ''project'', ''retrieve'', ''start'', ''--target-org'', org]
           @ concat (map (\<lambda>p. [''--source-dir'', p]) paths))"
  unfolding pull_command_def
  by (rule disjI2, rule disjI2, rule disjI1, rule exI[of _ paths]) (simp add: retrieve_cmd_def flag_pairs_def)

lemma pull_command_manifest:
  "pull_command w root org ic
     (if ic then [''sf'', ''project'', ''retrieve'', ''start'', ''--target-org'', org, ''--manifest'', mp]
                 @ [''--ignore-conflicts'']
      else [''sf'', ''project'', ''retrieve'', ''start'', ''--target-org'', org, ''--manifest'', mp])"
  unfolding pull_command_def
  by (rule disjI2, rule disjI2, rule disjI2, rule disjI1, rule exI[of _ mp]) (simp add: retrieve_cmd_def)

lemma pull_command_generate:
  "pull_command w root org ic [''sf'', ''project'', ''generate'', ''manifest'', ''--from-org'', org,
                ''--output-dir'', path_join w root ''manifest'']"
  unfolding pull_command_def by simp

lemma pull_command_reset:
  "pull_command w root org ic [''sf'', ''project'', ''reset'', ''tracking'', ''--target-org'', org, ''--no-prompt'']"
  unfolding pull_command_def by simp

lemmas pull_command_intros = pull_command_all pull_command_types pull_command_paths
  pull_command_manifest pull_command_generate pull_command_reset

lemma guards_pull_everything:
  assumes b: "basic I E" and c: "\<And>cmd. pull_command w root org ic cmd \<Longrightarrow> cmd_ok I E cmd"
  shows "guards I E (pull_everything w root org ic)"
  unfolding pull_everything_def Let_def
  by (intro guards_intros b c pull_command_intros)

lemma guards_pull_by_types:
  assumes b: "basic I E" and c: "\<And>cmd. pull_command w root org ic cmd \<Longrightarrow> cmd_ok I E cmd"
  shows "guards I E (pull_by_types w root org ic)"
  unfolding pull_by_types_def Let_def
  by (intro guards_intros guards_choose_many guards_ask b c pull_command_intros) assumption

lemma guards_pull_by_paths:
  assumes b: "basic I E" and c: "\<And>cmd. pull_command w root org ic cmd \<Longrightarrow> cmd_ok I E cmd"
  shows "guards I E (pull_by_paths w root org ic)"
  unfolding pull_by_paths_def Let_def
  by (intro guards_intros b c pull_command_intros)

lemma guards_manifest_choice:
  assumes b: "basic I E" and c: "\<And>cmd. pull_command w root org ic cmd \<Longrightarrow> cmd_ok I E cmd"
  shows "guards I E (manifest_choice w root org choice)"
  unfolding manifest_choice_def Let_def
  by (intro guards_intros guards_ask b c pull_command_intros) simp

lemma guards_pull_by_manifest:
  assumes b: "basic I E" and c: "\<And>cmd. pull_command w root org ic cmd \<Longrightarrow> cmd_ok I E cmd"
  shows "guards I E (pull_by_manifest w root org ic)"
  unfolding pull_by_manifest_def Let_def
  by (intro guards_intros guards_manifest_choice[where ic = ic] b c pull_command_intros)

lemma guards_reset_tracking:
  assumes b: "basic I E" and c: "\<And>cmd. pull_command w root org ic cmd \<Longrightarrow> cmd_ok I E cmd"
  shows "guards I E (reset_tracking w root org)"
  unfolding reset_tracking_def Let_def
  by (intro guards_intros guards_ask_bool b c pull_command_intros)

subsection \<open>The menu of the pull wizard\<close>

text \<open>
  One pass of the \<open>while True\<close> loop of \<open>main\<close>: the menu is shown, a choice is read and
  its handler runs. The result says whether the loop goes on (\<open>False\<close> at \<open>break\<close>).
\<close>

definition show_menu :: "string io" where
  "show_menu =
     bind_io (py_print []) (\<lambda>_.
     bind_io (logger_step ''SELECT ACTION'') (\<lambda>_.
     bind_io (py_print ''  1) Pull ALL source-tracked changes'') (\<lambda>_.
     bind_io (py_print ''  2) Pull by METADATA TYPES'') (\<lambda>_.
     bind_io (py_print ''  3) Pull by PATHS/FOLDERS'') (\<lambda>_.
     bind_io (py_print ''  4) Pull by MANIFEST (package.xml)'') (\<lambda>_.
     bind_io (py_print ''  5) RESET TRACKING (then you can pull)'') (\<lambda>_.
     bind_io (py_print ''  6) Exit'') (\<lambda>_.
     bind_io (py_input ''Choose [1-6]: '') (\<lambda>line. return_io (py_strip line))))))))))"

definition dispatch :: "world \<Rightarrow> string \<Rightarrow> string \<Rightarrow> bool \<Rightarrow> string \<Rightarrow> bool io" where
  "dispatch w project_root target_org ignore_conflicts choice =
     (if choice = ''1'' then
        bind_io (pull_everything w project_root target_org ignore_conflicts) (\<lambda>_. return_io True)
      else if choice = ''2'' then
        bind_io (pull_by_types w project_root target_org ignore_conflicts) (\<lambda>_. return_io True)
      else if choice = ''3'' then
        bind_io (pull_by_paths w project_root target_org ignore_conflicts) (\<lambda>_. return_io True)
      else if choice = ''4'' then
        bind_io (pull_by_manifest w project_root target_org ignore_conflicts) (\<lambda>_. return_io True)
      else if choice = ''5'' then
        bind_io (reset_tracking w project_root target_org) (\<lambda>_. return_io True)
      else if choice = ''6'' then
        bind_io (logger_info ''Bye!'') (\<lambda>_. return_io False)
      else bind_io (logger_warning ''Invalid choice. Try again.'') (\<lambda>_. return_io True))"

definition menu_iteration :: "world \<Rightarrow> string \<Rightarrow> string \<Rightarrow> bool \<Rightarrow> bool io" where
  "menu_iteration w project_root target_org ignore_conflicts =
     bind_io show_menu (dispatch w project_root target_org ignore_conflicts)"

lemma guards_show_menu: "basic I E \<Longrightarrow> guards I E show_menu"
  unfolding show_menu_def by (intro guards_intros)

lemma guards_dispatch:
  assumes b: "basic I E" and c: "\<And>cmd. pull_command w root org ic cmd \<Longrightarrow> cmd_ok I E cmd"
  shows "guards I E (dispatch w root org ic choice)"
  unfolding dispatch_def
  by (intro guards_intros guards_pull_everything guards_pull_by_types guards_pull_by_paths
      guards_pull_by_manifest guards_reset_tracking[where ic = ic] b c)

lemma guards_menu_iteration:
  assumes b: "basic I E" and c: "\<And>cmd. pull_command w root org ic cmd \<Longrightarrow> cmd_ok I E cmd"
  shows "guards I E (menu_iteration w root org ic)"
  unfolding menu_iteration_def
  by (intro guards_bind guards_show_menu guards_dispatch b c)

text \<open>Every pass reads at least the line of the choice, and nothing is ever put back.\<close>

lemma basic_stdin: "basic (\<lambda>s. length (stdin s) < n) (\<lambda>e s. True)"
  by (auto simp: basic_def app_def)

lemma cmd_ok_stdin: "cmd_ok (\<lambda>s. length (stdin s) < n) (\<lambda>e s. True) cmd"
  by (auto simp: cmd_ok_def app_def)

lemma show_menu_reads:
  "triple (\<lambda>s. length (stdin s) = n) show_menu (\<lambda>_ s. length (stdin s) < n) (\<lambda>e s. True)"
  unfolding show_menu_def logger_step_def py_print_def
  by (intro triple_bind[where R = "\<lambda>_ s. length (stdin s) = n"] triple_emit
      triple_bind[where R = "\<lambda>_ s. length (stdin s) < n" and m = "py_input p" for p]
      triple_input triple_return)
     (auto simp: app_def)

lemma menu_iteration_reads:
  "triple (\<lambda>s. length (stdin s) = n) (menu_iteration w root org ic)
     (\<lambda>_ s. length (stdin s) < n) (\<lambda>e s. True)"
  unfolding menu_iteration_def
  by (rule triple_bind[OF show_menu_reads])
     (rule guards_dispatch[OF basic_stdin cmd_ok_stdin, unfolded guards_def])

lemma menu_iteration_shrinks:
  "menu_iteration w root org ic s = (Inr again, s') \<Longrightarrow> length (stdin s') < length (stdin s)"
  using tripleD_Inr[OF menu_iteration_reads[where n = "length (stdin s)"], of s w root org ic again s']
  by simp

function menu_loop :: "world \<Rightarrow> string \<Rightarrow> string \<Rightarrow> bool \<Rightarrow> unit io" where
  "menu_loop w project_root target_org ignore_conflicts s =
     (case menu_iteration w project_root target_org ignore_conflicts s of
        (Inl e, s') \<Rightarrow> (Inl e, s')
      | (Inr again, s') \<Rightarrow>
          if again then menu_loop w project_root target_org ignore_conflicts s' else (Inr (), s'))"
  by pat_completeness auto
termination
  apply (relation "measure (\<lambda>(w, project_root, target_org, ignore_conflicts, s). length (stdin s))")
   apply simp
  apply simp
  apply (drule sym)
  apply (erule menu_iteration_shrinks)
  done


declare menu_loop.simps [simp del]

text \<open>
  \<open>main\<close> of pull\_metadata.py, from the parsed arguments on. The scan of the per-user
  directory of org files for a default alias is the world's \<open>default_org_alias\<close>.
\<close>

record pull_args =
  arg_target_org :: "string option"
  arg_ignore_conflicts :: bool

definition pull_main :: "world \<Rightarrow> pull_args \<Rightarrow> unit io" where
  "pull_main w args =
     bind_io (find_project_root w) (\<lambda>project_root.
     bind_io (logger_header ''Salesforce Pull Wizard'') (\<lambda>_.
     bind_io (logger_info (''Project root: '' @ project_root)) (\<lambda>_.
     let default_alias = default_org_alias w in
     bind_io (if truthy (arg_target_org args) then return_io (the (arg_target_org args))
              else ask ''Target org alias/username?''
                     (Some (if truthy default_alias then the default_alias else []))) (\<lambda>target_org.
     if target_org = [] then
       bind_io (logger_error ''You must provide a target org alias/username.'') (\<lambda>_. sys_exit 1)
     else
       bind_io (if arg_ignore_conflicts args then return_io True
                else ask_bool ''Ignore conflicts during retrieve?'' False) (\<lambda>ignore_conflicts.
       menu_loop w project_root target_org ignore_conflicts)))))"

lemma menu_loop_guarded:
  "basic I E \<Longrightarrow> (\<forall>cmd. pull_command w root org ic cmd \<longrightarrow> cmd_ok I E cmd) \<Longrightarrow> I s \<Longrightarrow>
   (case menu_loop w root org ic s of (Inl e, s') \<Rightarrow> E e s' | (Inr x, s') \<Rightarrow> I s')"
proof (induction w root org ic s rule: menu_loop.induct)
  case (1 w root org ic s)
  have g: "triple I (menu_iteration w root org ic) (\<lambda>_. I) E"
    using guards_menu_iteration[of I E w root org ic] "1.prems" by (simp add: guards_def)
  show ?case
  proof (cases "menu_iteration w root org ic s")
    case (Pair r s1)
    show ?thesis
    proof (cases r)
      case (Inl e)
      with Pair tripleD_Inl[OF g "1.prems"(3)] show ?thesis
        by (simp add: menu_loop.simps[of w root org ic s])
    next
      case (Inr again)
      with Pair tripleD_Inr[OF g "1.prems"(3)] have I1: "I s1" by simp
      show ?thesis
      proof (cases again)
        case True
        from "1.IH"[OF Pair[symmetric] Inr True "1.prems"(1,2) I1] Pair Inr True show ?thesis
          by (simp add: menu_loop.simps[of w root org ic s])
      next
        case False
        with Pair Inr I1 show ?thesis by (simp add: menu_loop.simps[of w root org ic s])
      qed
    qed
  qed
qed

lemma guards_menu_loop:
  assumes b: "basic I E" and c: "\<And>cmd. pull_command w root org ic cmd \<Longrightarrow> cmd_ok I E cmd"
  shows "guards I E (menu_loop w root org ic)"
  unfolding guards_def triple_def
proof (intro allI impI)
  fix s assume i: "I s"
  have h: "\<forall>cmd. pull_command w root org ic cmd \<longrightarrow> cmd_ok I E cmd" using c by blast
  show "case menu_loop w root org ic s of (Inl e, s') \<Rightarrow> E e s' | (Inr x, s') \<Rightarrow> I s'"
    by (rule menu_loop_guarded[OF b h i])
qed

lemma guards_first_marked: "guards I E (first_marked_io w)"
  by (simp add: guards_def triple_def first_marked_io_def)

lemma guards_find_project_root: "basic I E \<Longrightarrow> guards I E (find_project_root w)"
  unfolding find_project_root_def by (intro guards_intros guards_first_marked)

text \<open>The commands \<open>pull_main\<close> can run: those of its handlers, for the target org it settled on.\<close>

definition pull_main_command :: "world \<Rightarrow> string list \<Rightarrow> bool" where
  "pull_main_command w cmd = (\<exists>root org ic. org \<noteq> [] \<and> pull_command w root org ic cmd)"

lemma guards_pull_main:
  assumes b: "basic I E" and c: "\<And>cmd. pull_main_command w cmd \<Longrightarrow> cmd_ok I E cmd"
  shows "guards I E (pull_main w args)"
  unfolding pull_main_def Let_def
  by (intro guards_intros guards_find_project_root guards_ask guards_ask_bool guards_menu_loop b c)
     (auto simp: pull_main_command_def)

subsection \<open>The commands of the bootstrap sequencer\<close>

definition git_commands :: "string \<Rightarrow> string list list" where
  "git_commands environment_name =
     [[''git'', ''checkout'', ''main''],
      [''git'', ''pull'', ''origin'', ''main''],
      [''git'', ''checkout'', ''-b'', environment_name, ''main''],
      [''git'', ''branch'', ''--list'', environment_name],
      [''git'', ''branch'', ''-D'', environment_name],
      [''git'', ''checkout'', ''-b'', environment_name, ''origin/'' @ environment_name]]"

definition login_commands :: "string \<Rightarrow> string list list" where
  "login_commands url =
     [[''sf'', ''org'', ''list''],
      [''sf'', ''org'', ''login'', ''web'', ''--alias'', ''DevHub'', ''--set-default-dev-hub'',
       ''--instance-url'', url]]"

definition create_command :: "world \<Rightarrow> string \<Rightarrow> bool \<Rightarrow> bool \<Rightarrow> string list" where
  "create_command w environment_name review_mode preview_mode =
     [''sf'', ''org'', ''create'', ''scratch'', ''--definition-file'', SCRATCH_DEF w,
      ''--alias'', environment_name, ''--duration-days'', (if review_mode then ''7'' else ''30''),
      ''--set-default'']
     @ (if preview_mode then [''--release'', ''Preview''] else [])"

definition deploy_command :: "world \<Rightarrow> string \<Rightarrow> string list" where
  "deploy_command w environment_name =
     [''sf'', ''project'', ''deploy'', ''start'', ''--target-org'', environment_name,
      ''--source-dir'', SOURCE_DIR w]"

definition open_command :: "string \<Rightarrow> string list" where
  "open_command environment_name = [''sf'', ''org'', ''open'', ''--target-org'', environment_name]"

lemma guards_git_prepare_branch:
  assumes b: "basic I E" and c: "\<And>cmd. cmd \<in> set (git_commands env) \<Longrightarrow> cmd_ok I E cmd"
  shows "guards I E (git_prepare_branch w env review_mode)"
  unfolding git_prepare_branch_def Let_def
  by (intro guards_intros b c) (simp_all add: git_commands_def)

lemma guards_check_sfcli_exists:
  assumes b: "basic I E" and c: "cmd_ok I E [''sf'', ''--version'']"
  shows "guards I E (check_sfcli_exists w)"
  unfolding check_sfcli_exists_def by (intro guards_intros b c)

lemma guards_login_devhub:
  assumes b: "basic I E" and c: "\<And>cmd. cmd \<in> set (login_commands url) \<Longrightarrow> cmd_ok I E cmd"
  shows "guards I E (login_devhub w url force_auth)"
  unfolding login_devhub_def Let_def
  by (intro guards_intros b c) (simp_all add: login_commands_def)

lemma create_command_unfolded:
  "(if preview_mode
    then [''sf'', ''org'', ''create'', ''scratch'', ''--definition-file'', SCRATCH_DEF w,
          ''--alias'', environment_name, ''--duration-days'', (if review_mode then ''7'' else ''30''),
          ''--set-default''] @ [''--release'', ''Preview'']
    else [''sf'', ''org'', ''create'', ''scratch'', ''--definition-file'', SCRATCH_DEF w,
          ''--alias'', environment_name, ''--duration-days'', (if review_mode then ''7'' else ''30''),
          ''--set-default''])
   = create_command w environment_name review_mode preview_mode"
  by (simp add: create_command_def)

lemma guards_create_scratch_org:
  assumes b: "basic I E" and c: "cmd_ok I E (create_command w alias review_mode preview_mode)"
  shows "guards I E (create_scratch_org w alias review_mode preview_mode)"
  unfolding create_scratch_org_def Let_def create_command_unfolded
  by (intro guards_intros b c)

lemma guards_deploy_source_metadata:
  assumes b: "basic I E" and c: "cmd_ok I E (deploy_command w alias)"
  shows "guards I E (deploy_source_metadata w alias)"
  unfolding deploy_source_metadata_def Let_def deploy_command_def[symmetric]
  by (intro guards_intros b c)

lemma guards_open_scratch_org:
  assumes b: "basic I E" and c: "cmd_ok I E (open_command alias)"
  shows "guards I E (open_scratch_org w alias review_mode)"
  unfolding open_scratch_org_def open_command_def[symmetric]
  by (intro guards_intros b c)

text \<open>
  Every command \<open>start_main\<close> can run, for its arguments: the branch commands take the
  normalized name, the three scratch-org commands the alias.
\<close>

definition start_commands :: "world \<Rightarrow> start_args \<Rightarrow> string list list" where
  "start_commands w args =
     (let env = norm_env (environment args);
          scratch_alias = (if review args then env @ ''-review'' else env)
      in git_commands env @ [[''sf'', ''--version'']] @ login_commands (devhub_url args)
         @ [create_command w scratch_alias (review args) (preview args),
            deploy_command w scratch_alias, open_command scratch_alias])"

lemma guards_start_main:
  assumes b: "basic I E" and c: "\<And>cmd. cmd \<in> set (start_commands w args) \<Longrightarrow> cmd_ok I E cmd"
  shows "guards I E (start_main w args)"
  unfolding start_main_def Let_def
  by (intro guards_intros guards_git_prepare_branch guards_check_sfcli_exists guards_login_devhub
      guards_create_scratch_org guards_deploy_source_metadata guards_open_scratch_org b c)
     (auto simp: start_commands_def Let_def)

section \<open>What a run shows in its trace\<close>

fun exec_failed :: "event \<Rightarrow> bool" where
  "exec_failed (Exec cmd cwd capture (Exited rc out)) = (rc \<noteq> 0)"
| "exec_failed ev = False"

fun exec_cmd :: "event \<Rightarrow> string list list" where
  "exec_cmd (Exec cmd cwd capture r) = [cmd]"
| "exec_cmd ev = []"

definition commands_run :: "event list \<Rightarrow> string list list" where
  "commands_run tr = concat (map exec_cmd tr)"

lemma commands_run_append [simp]: "commands_run (a @ b) = commands_run a @ commands_run b"
  by (simp add: commands_run_def)

lemma commands_run_simps [simp]:
  "commands_run [] = []"
  "commands_run (Exec cmd cwd cap r # tr) = cmd # commands_run tr"
  "commands_run (Log l m # tr) = commands_run tr"
  "commands_run (Print m # tr) = commands_run tr"
  "commands_run (Prompt m # tr) = commands_run tr"
  "commands_run (Mkdir m # tr) = commands_run tr"
  by (simp_all add: commands_run_def)

lemma commands_run_not_exec: "list_all (\<lambda>ev. \<not> is_exec ev) evs \<Longrightarrow> commands_run evs = []"
  by (induction evs) (auto simp: commands_run_def elim: is_exec.elims)

lemma not_exec_cases: "\<not> is_exec ev \<Longrightarrow> exec_cmd ev = [] \<and> \<not> exec_failed ev"
  by (cases ev) simp_all

subsection \<open>A non-zero exit status is fatal\<close>

definition no_failure :: "state \<Rightarrow> bool" where
  "no_failure s = (\<not> list_ex exec_failed (trace s))"

definition failure_is_exit :: "failure \<Rightarrow> state \<Rightarrow> bool" where
  "failure_is_exit e s = (list_ex exec_failed (trace s) \<longrightarrow> e = SystemExit 1)"

lemma basic_no_failure: "basic no_failure failure_is_exit"
  by (auto simp: basic_def no_failure_def failure_is_exit_def app_def not_exec_cases)

lemma cmd_ok_no_failure: "cmd_ok no_failure failure_is_exit cmd"
  by (auto simp: cmd_ok_def no_failure_def failure_is_exit_def app_def)

lemma run_subprocess_fails:
  assumes "proc w (trace s @ [Log INFO (''$ '' @ py_join '' '' cmd)]) cmd cwd = Exited rc out" and "rc \<noteq> 0"
  shows "run_subprocess w cmd pt cwd s =
     (Inl (SystemExit 1),
      s\<lparr>trace := trace s @ [Log INFO (''$ '' @ py_join '' '' cmd), Exec cmd cwd (\<not> pt) (Exited rc out),
                            Log ERROR (''FAILED: '' @ py_join '' '' cmd)]
                 @ (if \<not> pt \<and> out \<noteq> [] then [Print out] else [])\<rparr>)"
  using assms by (simp add: run_shape Let_def app_def failure_events_def)

lemma run_fails:
  assumes "proc w (trace s @ [Log INFO (''$ '' @ py_join '' '' (map shlex_quote cmd))]) cmd cwd = Exited rc out"
    and "rc \<noteq> 0"
  shows "run w cmd cwd pt s =
     (Inl (SystemExit 1),
      s\<lparr>trace := trace s @ [Log INFO (''$ '' @ py_join '' '' (map shlex_quote cmd)),
                            Exec cmd cwd (\<not> pt) (Exited rc out),
                            Log ERROR (''FAILED: '' @ py_join '' '' (map shlex_quote cmd))]
                 @ (if \<not> pt \<and> out \<noteq> [] then [Print out] else [])\<rparr>)"
  using assms by (simp add: pull_run_shape Let_def app_def failure_events_def)

lemma main_failure_fatal:
  assumes g: "guards no_failure failure_is_exit m" and n: "\<not> list_ex exec_failed (trace s)"
    and f: "list_ex exec_failed (trace (snd (m s)))"
  shows "fst (m s) = Inl (SystemExit 1)"
proof (cases "m s")
  case (Pair r s')
  show ?thesis
  proof (cases r)
    case (Inl e)
    from tripleD_Inl[OF g[unfolded guards_def], of s e s'] n Pair Inl
    have "failure_is_exit e s'" by (simp add: no_failure_def)
    with f Pair Inl show ?thesis by (simp add: failure_is_exit_def)
  next
    case (Inr x)
    from tripleD_Inr[OF g[unfolded guards_def], of s x s'] n Pair Inr
    have "no_failure s'" by (simp add: no_failure_def)
    with f Pair show ?thesis by (simp add: no_failure_def)
  qed
qed

text \<open>
  C1: a child process that exits with a non-zero status ends the program with exit code 1:
  both runners fail with \<open>SystemExit 1\<close>, having logged the failure and, in capture mode,
  printed the captured output when there is any; and in a run of either wizard, a child
  that exited non-zero anywhere means the run ended with \<open>SystemExit 1\<close>.
\<close>

theorem nonzero_exit_is_fatal:
  "(proc w (trace s @ [Log INFO (''$ '' @ py_join '' '' (map shlex_quote cmd))]) cmd cwd = Exited rc out
      \<longrightarrow> rc \<noteq> 0 \<longrightarrow>
      run w cmd cwd pt s =
        (Inl (SystemExit 1),
         s\<lparr>trace := trace s @ [Log INFO (''$ '' @ py_join '' '' (map shlex_quote cmd)),
                               Exec cmd cwd (\<not> pt) (Exited rc out),
                               Log ERROR (''FAILED: '' @ py_join '' '' (map shlex_quote cmd))]
                    @ (if \<not> pt \<and> out \<noteq> [] then [Print out] else [])\<rparr>))
   \<and> (proc w (trace s @ [Log INFO (''$ '' @ py_join '' '' cmd)]) cmd cwd = Exited rc out
      \<longrightarrow> rc \<noteq> 0 \<longrightarrow>
      run_subprocess w cmd pt cwd s =
        (Inl (SystemExit 1),
         s\<lparr>trace := trace s @ [Log INFO (''$ '' @ py_join '' '' cmd),
                               Exec cmd cwd (\<not> pt) (Exited rc out),
                               Log ERROR (''FAILED: '' @ py_join '' '' cmd)]
                    @ (if \<not> pt \<and> out \<noteq> [] then [Print out] else [])\<rparr>))
   \<and> (\<not> list_ex exec_failed (trace s) \<longrightarrow>
      list_ex exec_failed (trace (snd (pull_main w pargs s))) \<longrightarrow>
      fst (pull_main w pargs s) = Inl (SystemExit 1))
   \<and> (\<not> list_ex exec_failed (trace s) \<longrightarrow>
      list_ex exec_failed (trace (snd (start_main w sargs s))) \<longrightarrow>
      fst (start_main w sargs s) = Inl (SystemExit 1))"
proof (intro conjI impI)
  assume "proc w (trace s @ [Log INFO (''$ '' @ py_join '' '' (map shlex_quote cmd))]) cmd cwd = Exited rc out"
    and "rc \<noteq> 0"
  then show "run w cmd cwd pt s =
        (Inl (SystemExit 1),
         s\<lparr>trace := trace s @ [Log INFO (''$ '' @ py_join '' '' (map shlex_quote cmd)),
                               Exec cmd cwd (\<not> pt) (Exited rc out),
                               Log ERROR (''FAILED: '' @ py_join '' '' (map shlex_quote cmd))]
                    @ (if \<not> pt \<and> out \<noteq> [] then [Print out] else [])\<rparr>)"
    by (rule run_fails)
next
  assume "proc w (trace s @ [Log INFO (''$ '' @ py_join '' '' cmd)]) cmd cwd = Exited rc out"
    and "rc \<noteq> 0"
  then show "run_subprocess w cmd pt cwd s =
        (Inl (SystemExit 1),
         s\<lparr>trace := trace s @ [Log INFO (''$ '' @ py_join '' '' cmd),
                               Exec cmd cwd (\<not> pt) (Exited rc out),
                               Log ERROR (''FAILED: '' @ py_join '' '' cmd)]
                    @ (if \<not> pt \<and> out \<noteq> [] then [Print out] else [])\<rparr>)"
    by (rule run_subprocess_fails)
next
  assume "\<not> list_ex exec_failed (trace s)" "list_ex exec_failed (trace (snd (pull_main w pargs s)))"
  then show "fst (pull_main w pargs s) = Inl (SystemExit 1)"
    by (rule main_failure_fatal[OF guards_pull_main[OF basic_no_failure cmd_ok_no_failure]])
next
  assume "\<not> list_ex exec_failed (trace s)" "list_ex exec_failed (trace (snd (start_main w sargs s)))"
  then show "fst (start_main w sargs s) = Inl (SystemExit 1)"
    by (rule main_failure_fatal[OF guards_start_main[OF basic_no_failure cmd_ok_no_failure]])
qed

section \<open>Concrete runs\<close>

definition fresh :: "string list \<Rightarrow> state" where
  "fresh lines = \<lparr>stdin = lines, trace = []\<rparr>"

definition fair_world :: world where
  "fair_world =
     \<lparr>proc = (\<lambda>tr cmd cwd. Exited 0 ''DevHub''),
      path_exists = (\<lambda>tr p. True),
      path_resolve = (\<lambda>tr p. p),
      path_join = (\<lambda>a b. a @ ''/'' @ b),
      repo_root = ''/repo'',
      cwd_parents = [''/repo/scripts'', ''/repo'', ''/''],
      default_org_alias = None\<rparr>"

definition broken_world :: world where
  "broken_world =
     fair_world\<lparr>proc := (\<lambda>tr cmd cwd.
        if cmd = [''sf'', ''--version''] \<or> take 3 cmd = [''sf'', ''project'', ''retrieve'']
        then Exited 2 ''boom'' else Exited 0 ''DevHub'')\<rparr>"

definition hello_args :: "bool \<Rightarrow> start_args" where
  "hello_args review_mode =
     \<lparr>environment = ''FE Hello'', review = review_mode, devhub_url = ''https://login.salesforce.com'',
      force_devhub_connection = False, preview = False\<rparr>"

definition org_args :: pull_args where
  "org_args = \<lparr>arg_target_org = Some ''dev1'', arg_ignore_conflicts = False\<rparr>"


lemmas io_defs = return_io_def raise_io_def bind_io_def emit_def sys_exit_def py_print_def
  py_input_def exists_io_def resolve_io_def subprocess_run_def logger_header_def logger_info_def
  logger_step_def logger_status_def logger_success_def logger_warning_def logger_error_def
  print_captured_def first_marked_io_def

lemmas start_defs = start_main_def git_prepare_branch_def check_sfcli_exists_def login_devhub_def
  create_scratch_org_def deploy_source_metadata_def open_scratch_org_def run_subprocess_def
  or_empty_def SCRATCH_DEF_def SOURCE_DIR_def bq_def


lemmas pull_defs = pull_main_def find_project_root_def ask_def ask_bool_def truthy_def
  menu_iteration_def show_menu_def dispatch_def pull_everything_def run_def squote_def

lemma shlex_quote_plain [simp]:
  "shlex_quote ''sf'' = ''sf''" "shlex_quote ''project'' = ''project''"
  "shlex_quote ''retrieve'' = ''retrieve''" "shlex_quote ''start'' = ''start''"
  "shlex_quote ''--target-org'' = ''--target-org''" "shlex_quote ''dev1'' = ''dev1''"
  "shlex_quote ''--version'' = ''--version''"
  by (simp_all add: shlex_quote_def shlex_safe_char_def)

lemma py_strip_plain [simp]:
  "py_strip [] = []" "py_strip ''1'' = ''1''"
  by (simp_all add: py_strip_def py_isspace_def)

lemma broken_start_fails:
  "list_ex exec_failed (trace (snd (start_main broken_world (hello_args False) (fresh []))))"
  by (simp add: start_defs io_defs Let_def broken_world_def fair_world_def hello_args_def fresh_def
      norm_env_example)

lemma broken_pull_fails:
  "list_ex exec_failed (trace (snd (pull_main broken_world org_args (fresh [[], ''1'']))))"
  by (simp add: pull_defs io_defs Let_def broken_world_def fair_world_def org_args_def fresh_def
      menu_loop.simps py_lower_def)

theorem nonzero_exit_is_fatal_witness:
  "run broken_world [''sf'', ''--version''] None False (fresh []) =
     (Inl (SystemExit 1),
      \<lparr>stdin = [], trace = [Log INFO ''$ sf --version'',
                            Exec [''sf'', ''--version''] None True (Exited 2 ''boom''),
                            Log ERROR ''FAILED: sf --version'', Print ''boom'']\<rparr>)
   \<and> run_subprocess broken_world [''sf'', ''--version''] True None (fresh []) =
     (Inl (SystemExit 1),
      \<lparr>stdin = [], trace = [Log INFO ''$ sf --version'',
                            Exec [''sf'', ''--version''] None False (Exited 2 ''boom''),
                            Log ERROR ''FAILED: sf --version'']\<rparr>)
   \<and> fst (pull_main broken_world org_args (fresh [[], ''1''])) = Inl (SystemExit 1)
   \<and> fst (start_main broken_world (hello_args False) (fresh [])) = Inl (SystemExit 1)"
proof -
  have p: "proc broken_world tr [''sf'', ''--version''] None = Exited 2 ''boom''" for tr
    by (simp add: broken_world_def fair_world_def)
  have n: "\<not> list_ex exec_failed (trace (fresh []))" by (simp add: fresh_def)
  have n2: "\<not> list_ex exec_failed (trace (fresh [[], ''1'']))" by (simp add: fresh_def)
  note a = nonzero_exit_is_fatal[where w = broken_world and s = "fresh []"
      and cmd = "[''sf'', ''--version'']" and cwd = None and rc = 2 and out = "''boom''"
      and pt = False and pargs = org_args and sargs = "hello_args False"]
  note b = nonzero_exit_is_fatal[where w = broken_world and s = "fresh []"
      and cmd = "[''sf'', ''--version'']" and cwd = None and rc = 2 and out = "''boom''"
      and pt = True and pargs = org_args and sargs = "hello_args False"]
  note c = nonzero_exit_is_fatal[where w = broken_world and s = "fresh [[], ''1'']"
      and cmd = "[''sf'', ''--version'']" and cwd = None and rc = 2 and out = "''boom''"
      and pt = True and pargs = org_args and sargs = "hello_args False"]
  from a p have "run broken_world [''sf'', ''--version''] None False (fresh []) =
     (Inl (SystemExit 1),
      \<lparr>stdin = [], trace = [Log INFO ''$ sf --version'',
                            Exec [''sf'', ''--version''] None True (Exited 2 ''boom''),
                            Log ERROR ''FAILED: sf --version'', Print ''boom'']\<rparr>)"
    by (simp add: fresh_def)
  moreover from b p have "run_subprocess broken_world [''sf'', ''--version''] True None (fresh []) =
     (Inl (SystemExit 1),
      \<lparr>stdin = [], trace = [Log INFO ''$ sf --version'',
                            Exec [''sf'', ''--version''] None False (Exited 2 ''boom''),
                            Log ERROR ''FAILED: sf --version'']\<rparr>)"
    by (simp add: fresh_def)
  moreover from c n2 broken_pull_fails
  have "fst (pull_main broken_world org_args (fresh [[], ''1''])) = Inl (SystemExit 1)" by blast
  moreover from a n broken_start_fails
  have "fst (start_main broken_world (hello_args False) (fresh [])) = Inl (SystemExit 1)" by blast
  ultimately show ?thesis by blast
qed

subsection \<open>Properties of every command of a run\<close>

definition cmds_all :: "(string list \<Rightarrow> bool) \<Rightarrow> state \<Rightarrow> bool" where
  "cmds_all P s = list_all P (commands_run (trace s))"

lemma basic_cmds_all: "basic (cmds_all P) (\<lambda>e. cmds_all P)"
  by (auto simp: basic_def cmds_all_def app_def not_exec_cases commands_run_def)

lemma cmd_ok_cmds_all: "P cmd \<Longrightarrow> cmd_ok (cmds_all P) (\<lambda>e. cmds_all P) cmd"
  by (auto simp: cmd_ok_def cmds_all_def app_def commands_run_not_exec)

lemma cmds_all_after:
  assumes g: "guards (cmds_all P) (\<lambda>e. cmds_all P) m" and i: "list_all P (commands_run (trace s))"
  shows "list_all P (commands_run (trace (snd (m s))))"
proof (cases "m s")
  case (Pair r s')
  show ?thesis
  proof (cases r)
    case (Inl e)
    from tripleD_Inl[OF g[unfolded guards_def], of s e s'] i Pair Inl show ?thesis
      by (simp add: cmds_all_def)
  next
    case (Inr x)
    from tripleD_Inr[OF g[unfolded guards_def], of s x s'] i Pair Inr show ?thesis
      by (simp add: cmds_all_def)
  qed
qed

lemma start_main_commands:
  assumes "list_all (\<lambda>cmd. cmd \<in> set (start_commands w args)) (commands_run (trace s))"
  shows "list_all (\<lambda>cmd. cmd \<in> set (start_commands w args)) (commands_run (trace (snd (start_main w args s))))"
  by (rule cmds_all_after[OF guards_start_main[OF basic_cmds_all cmd_ok_cmds_all] assms])

text \<open>
  C2, as the code has it: branch preparation is given the normalized name, without the review
  suffix; scratch-org creation, deployment and launch are given one and the same alias, the
  normalized name with \<open>-review\<close> appended in review mode; the CLI check and the
  authentication take no name at all. So every command of a run is one of the twelve below,
  and the two names are the same string exactly when review mode is off.
\<close>

theorem alias_per_stage:
  assumes "commands_run (trace s) = []"
    and "cmd \<in> set (commands_run (trace (snd (start_main w args s))))"
    and "env = norm_env (environment args)"
    and "scratch_alias = (if review args then env @ ''-review'' else env)"
  shows "(cmd \<in> set (git_commands env)
          \<or> cmd = [''sf'', ''--version'']
          \<or> cmd \<in> set (login_commands (devhub_url args))
          \<or> cmd = create_command w scratch_alias (review args) (preview args)
          \<or> cmd = deploy_command w scratch_alias
          \<or> cmd = open_command scratch_alias)
         \<and> (scratch_alias = env \<longleftrightarrow> \<not> review args)"
proof -
  from assms(1) have "list_all (\<lambda>cmd. cmd \<in> set (start_commands w args)) (commands_run (trace s))"
    by simp
  from start_main_commands[OF this] assms(2) have "cmd \<in> set (start_commands w args)"
    by (simp add: list_all_iff)
  with assms(3,4) show ?thesis by (auto simp: start_commands_def Let_def)
qed

lemma fair_review_run:
  "commands_run (trace (snd (start_main fair_world (hello_args True) (fresh [])))) =
     [[''git'', ''checkout'', ''main''],
      [''git'', ''pull'', ''origin'', ''main''],
      [''git'', ''branch'', ''--list'', ''fe-hello''],
      [''git'', ''checkout'', ''-b'', ''fe-hello'', ''origin/fe-hello''],
      [''sf'', ''--version''],
      [''sf'', ''org'', ''list''],
      [''sf'', ''org'', ''list''],
      [''sf'', ''org'', ''create'', ''scratch'', ''--definition-file'',
       ''/repo/config/project-scratch-def.json'', ''--alias'', ''fe-hello-review'',
       ''--duration-days'', ''7'', ''--set-default''],
      [''sf'', ''project'', ''deploy'', ''start'', ''--target-org'', ''fe-hello-review'',
       ''--source-dir'', ''/repo/force-app''],
      [''sf'', ''org'', ''open'', ''--target-org'', ''fe-hello-review'']]"
  by (simp add: start_defs io_defs Let_def fair_world_def hello_args_def fresh_def norm_env_example)


text \<open>
  The claim as stated fails in review mode: in this run branch preparation is given
  \<open>fe-hello\<close> and the launch \<open>fe-hello-review\<close>.
\<close>

theorem alias_per_stage_counterexample:
  "commands_run (trace (snd (start_main fair_world (hello_args True) (fresh [])))) ! 3
     = [''git'', ''checkout'', ''-b'', ''fe-hello'', ''origin/fe-hello'']
   \<and> commands_run (trace (snd (start_main fair_world (hello_args True) (fresh [])))) ! 9
     = [''sf'', ''org'', ''open'', ''--target-org'', ''fe-hello-review'']"
  by (simp add: fair_review_run)

lemma fair_plain_run:
  "commands_run (trace (snd (start_main fair_world (hello_args False) (fresh [])))) =
     [[''git'', ''checkout'', ''main''],
      [''git'', ''pull'', ''origin'', ''main''],
      [''git'', ''checkout'', ''-b'', ''fe-hello'', ''main''],
      [''sf'', ''--version''],
      [''sf'', ''org'', ''list''],
      [''sf'', ''org'', ''list''],
      [''sf'', ''org'', ''create'', ''scratch'', ''--definition-file'',
       ''/repo/config/project-scratch-def.json'', ''--alias'', ''fe-hello'',
       ''--duration-days'', ''30'', ''--set-default''],
      [''sf'', ''project'', ''deploy'', ''start'', ''--target-org'', ''fe-hello'',
       ''--source-dir'', ''/repo/force-app''],
      [''sf'', ''org'', ''open'', ''--target-org'', ''fe-hello'']]"
  by (simp add: start_defs io_defs Let_def fair_world_def hello_args_def fresh_def norm_env_example)

theorem alias_per_stage_witness:
  "commands_run (trace (fresh [])) = []
   \<and> [''sf'', ''org'', ''open'', ''--target-org'', ''fe-hello'']
       \<in> set (commands_run (trace (snd (start_main fair_world (hello_args False) (fresh [])))))
   \<and> [''sf'', ''org'', ''open'', ''--target-org'', ''fe-hello''] = open_command ''fe-hello''
   \<and> (''fe-hello'' = norm_env (environment (hello_args False)))
   \<and> \<not> review (hello_args False)"
proof -
  have a: "commands_run (trace (fresh [])) = []" by (simp add: fresh_def)
  have b: "[''sf'', ''org'', ''open'', ''--target-org'', ''fe-hello'']
       \<in> set (commands_run (trace (snd (start_main fair_world (hello_args False) (fresh [])))))"
    by (simp add: fair_plain_run)
  have c: "''fe-hello'' = norm_env (environment (hello_args False))"
    by (simp add: hello_args_def norm_env_example)
  have d: "''fe-hello'' = (if review (hello_args False) then ''fe-hello'' @ ''-review'' else ''fe-hello'')"
    by (simp add: hello_args_def)
  from alias_per_stage[OF a b c d] a b c show ?thesis
    by (simp add: open_command_def hello_args_def)
qed

subsection \<open>The alias of the scratch org\<close>

definition creates_scratch :: "string list \<Rightarrow> bool" where
  "creates_scratch cmd = (take 4 cmd = [''sf'', ''org'', ''create'', ''scratch''])"

text \<open>The aliases of the scratch orgs a run asked for: the token after \<open>--alias\<close>.\<close>

definition created_aliases :: "event list \<Rightarrow> string list" where
  "created_aliases tr = map (\<lambda>cmd. cmd ! 7) (filter creates_scratch (commands_run tr))"

lemma start_commands_alias:
  assumes "cmd \<in> set (start_commands w args)" and "creates_scratch cmd"
  shows "cmd ! 7 = (if review args then norm_env (environment args) @ ''-review''
                    else norm_env (environment args))"
  using assms
  by (auto simp: start_commands_def Let_def git_commands_def login_commands_def create_command_def
      deploy_command_def open_command_def creates_scratch_def)

text \<open>
  C8, as the code has it: the alias of the scratch org is the normalized name with
  \<open>-review\<close> appended in review mode, and the normalized name itself, with nothing
  appended, otherwise.
\<close>

theorem scratch_alias_value:
  assumes "created_aliases (trace s) = []"
    and "a \<in> set (created_aliases (trace (snd (start_main w args s))))"
  shows "a = (if review args then norm_env (environment args) @ ''-review''
              else norm_env (environment args))"
proof -
  let ?P = "\<lambda>cmd. creates_scratch cmd \<longrightarrow> cmd ! 7 = (if review args then norm_env (environment args) @ ''-review''
                    else norm_env (environment args))"
  from assms(1) have h: "list_all ?P (commands_run (trace s))"
    by (auto simp: created_aliases_def list_all_iff filter_empty_conv)
  have g: "guards (cmds_all ?P) (\<lambda>e. cmds_all ?P) (start_main w args)"
    by (rule guards_start_main[OF basic_cmds_all cmd_ok_cmds_all]) (simp add: start_commands_alias)
  have "list_all ?P (commands_run (trace (snd (start_main w args s))))"
    by (rule cmds_all_after[OF g h])
  with assms(2) show ?thesis by (auto simp: created_aliases_def list_all_iff)
qed

theorem scratch_alias_value_witness:
  "created_aliases (trace (fresh [])) = []
   \<and> ''fe-hello-review'' \<in> set (created_aliases (trace (snd (start_main fair_world (hello_args True) (fresh [])))))
   \<and> ''fe-hello-review'' = norm_env ''FE Hello'' @ ''-review''
   \<and> review (hello_args True)"
proof -
  have a: "created_aliases (trace (fresh [])) = []" by (simp add: fresh_def created_aliases_def)
  have b: "''fe-hello-review'' \<in> set (created_aliases (trace (snd (start_main fair_world (hello_args True) (fresh [])))))"
    by (simp add: created_aliases_def fair_review_run creates_scratch_def)
  from scratch_alias_value[OF a b] a b show ?thesis by (simp add: hello_args_def)
qed

text \<open>
  The claim as stated fails when review mode is off and the name given already ends in
  \<open>-review\<close>: the alias then carries the suffix.
\<close>

definition suffixed_args :: start_args where
  "suffixed_args = (hello_args False)\<lparr>environment := ''fe-hello-review''\<rparr>"

lemma norm_env_suffixed: "norm_env ''fe-hello-review'' = ''fe-hello-review''"
  by code_simp

theorem scratch_alias_counterexample:
  "\<not> review suffixed_args
   \<and> created_aliases (trace (snd (start_main fair_world suffixed_args (fresh [])))) = [''fe-hello-review'']
   \<and> drop 8 ''fe-hello-review'' = ''-review''"
  by (simp add: created_aliases_def creates_scratch_def suffixed_args_def start_defs io_defs Let_def
      fair_world_def hello_args_def fresh_def norm_env_suffixed)

subsection \<open>No scratch org without the Dev Hub\<close>

fun listing_output :: "event \<Rightarrow> string list" where
  "listing_output (Exec cmd cwd capture (Exited rc out)) =
     (if cmd = [''sf'', ''org'', ''list''] then [out] else [])"
| "listing_output ev = []"

text \<open>What each \<open>sf org list\<close> of a run printed, in order.\<close>

definition org_listings :: "event list \<Rightarrow> string list" where
  "org_listings tr = concat (map listing_output tr)"

definition no_create :: "event list \<Rightarrow> bool" where
  "no_create tr = list_all (\<lambda>cmd. \<not> creates_scratch cmd) (commands_run tr)"

lemma org_listings_append [simp]: "org_listings (a @ b) = org_listings a @ org_listings b"
  by (simp add: org_listings_def)

lemma org_listings_simps [simp]:
  "org_listings [] = []"
  "org_listings (Log l m # tr) = org_listings tr"
  "org_listings (Print m # tr) = org_listings tr"
  "org_listings (Prompt m # tr) = org_listings tr"
  "org_listings (Mkdir m # tr) = org_listings tr"
  "org_listings (Exec cmd cwd cap NotStarted # tr) = org_listings tr"
  "org_listings (Exec cmd cwd cap (Exited rc out) # tr) =
     (if cmd = [''sf'', ''org'', ''list''] then out # org_listings tr else org_listings tr)"
  by (simp_all add: org_listings_def)

lemma org_listings_not_exec: "\<not> is_exec ev \<Longrightarrow> org_listings [ev] = []"
  by (cases ev) simp_all

lemma org_listings_not_execs: "list_all (\<lambda>ev. \<not> is_exec ev) evs \<Longrightarrow> org_listings evs = []"
  by (induction evs) (auto simp: org_listings_def elim: is_exec.elims)

lemma no_create_append [simp]: "no_create (a @ b) = (no_create a \<and> no_create b)"
  by (simp add: no_create_def)

lemma no_create_not_exec: "\<not> is_exec ev \<Longrightarrow> no_create [ev]"
  by (cases ev) (simp_all add: no_create_def)

lemma no_create_not_execs: "list_all (\<lambda>ev. \<not> is_exec ev) evs \<Longrightarrow> no_create evs"
  by (simp add: no_create_def commands_run_not_exec)

lemma no_create_exec [simp]: "no_create (Exec cmd cwd cap r # tr) = (\<not> creates_scratch cmd \<and> no_create tr)"
  by (simp add: no_create_def)

lemma no_create_simps [simp]:
  "no_create []"
  "no_create (Log l m # tr) = no_create tr"
  "no_create (Print m # tr) = no_create tr"
  "no_create (Prompt m # tr) = no_create tr"
  "no_create (Mkdir m # tr) = no_create tr"
  by (simp_all add: no_create_def)

lemma not_creates_listing [simp]: "\<not> creates_scratch [''sf'', ''org'', ''list'']"
  by (simp add: creates_scratch_def)

lemma no_create_failure_events [simp]: "no_create (failure_events shown pt out)"
  by (simp add: no_create_not_execs not_exec_failure_events)

lemma org_listings_failure_events [simp]: "org_listings (failure_events shown pt out) = []"
  by (simp add: org_listings_not_execs not_exec_failure_events)

definition before_login :: "state \<Rightarrow> bool" where
  "before_login s = (org_listings (trace s) = [] \<and> no_create (trace s))"

definition listed_once :: "state \<Rightarrow> bool" where
  "listed_once s = ((\<exists>a. org_listings (trace s) = [a]) \<and> no_create (trace s))"

definition relisted :: "string \<Rightarrow> state \<Rightarrow> bool" where
  "relisted b s = ((\<exists>a. org_listings (trace s) = [a, b]) \<and> no_create (trace s))"

definition hub_seen :: "state \<Rightarrow> bool" where
  "hub_seen s = (\<exists>a b. org_listings (trace s) = [a, b] \<and> py_in ''DevHub'' b)"

definition hub_missing_fatal :: "failure \<Rightarrow> state \<Rightarrow> bool" where
  "hub_missing_fatal e s =
     (\<forall>a b more. org_listings (trace s) = a # b # more \<longrightarrow> \<not> py_in ''DevHub'' b \<longrightarrow>
        e = SystemExit 1 \<and> no_create (trace s))"

lemma basic_before_login: "basic before_login hub_missing_fatal"
  by (auto simp: basic_def before_login_def hub_missing_fatal_def app_def org_listings_not_exec
      no_create_not_exec)

lemma cmd_ok_before_login:
  "cmd \<noteq> [''sf'', ''org'', ''list''] \<Longrightarrow> \<not> creates_scratch cmd \<Longrightarrow> cmd_ok before_login hub_missing_fatal cmd"
  by (auto simp: cmd_ok_def before_login_def hub_missing_fatal_def app_def org_listings_not_execs
      no_create_not_execs)

lemma basic_listed_once: "basic listed_once hub_missing_fatal"
  by (auto simp: basic_def listed_once_def hub_missing_fatal_def app_def org_listings_not_exec
      no_create_not_exec)

lemma cmd_ok_listed_once:
  "cmd \<noteq> [''sf'', ''org'', ''list''] \<Longrightarrow> \<not> creates_scratch cmd \<Longrightarrow> cmd_ok listed_once hub_missing_fatal cmd"
  by (auto simp: cmd_ok_def listed_once_def hub_missing_fatal_def app_def org_listings_not_execs
      no_create_not_execs)

lemma basic_hub_seen: "basic hub_seen hub_missing_fatal"
  by (auto simp: basic_def hub_seen_def hub_missing_fatal_def app_def org_listings_not_exec)

lemma cmd_ok_hub_seen:
  "cmd \<noteq> [''sf'', ''org'', ''list''] \<Longrightarrow> cmd_ok hub_seen hub_missing_fatal cmd"
  by (auto simp: cmd_ok_def hub_seen_def hub_missing_fatal_def app_def org_listings_not_execs)

lemma triple_run_subprocess:
  assumes ok: "\<And>s out. P s \<Longrightarrow>
      Q (if pt then None else Some out)
        (app [Log INFO (''$ '' @ py_join '' '' cmd), Exec cmd cwd (\<not> pt) (Exited 0 out),
              Log SUCCESS (py_join '' '' cmd)] s)"
    and ns: "\<And>s. P s \<Longrightarrow>
      E (Uncaught OSError) (app [Log INFO (''$ '' @ py_join '' '' cmd), Exec cmd cwd (\<not> pt) NotStarted] s)"
    and bad: "\<And>s rc out. P s \<Longrightarrow> rc \<noteq> 0 \<Longrightarrow>
      E (SystemExit 1)
        (app (Log INFO (''$ '' @ py_join '' '' cmd) # Exec cmd cwd (\<not> pt) (Exited rc out)
              # failure_events (py_join '' '' cmd) pt out) s)"
  shows "triple P (run_subprocess w cmd pt cwd) Q E"
  unfolding triple_def
proof (intro allI impI)
  fix s assume P: "P s"
  let ?s1 = "app [Log INFO (''$ '' @ py_join '' '' cmd)] s"
  show "case run_subprocess w cmd pt cwd s of (Inl e, s') \<Rightarrow> E e s' | (Inr x, s') \<Rightarrow> Q x s'"
  proof (cases "proc w (trace ?s1) cmd cwd")
    case NotStarted
    with ns[OF P] show ?thesis by (simp add: run_shape Let_def app_app)
  next
    case (Exited rc out)
    with ok[OF P, of out] bad[OF P, of rc out] show ?thesis
      by (simp add: run_shape Let_def app_app)
  qed
qed

lemma triple_bind_guards:
  "guards I E m \<Longrightarrow> (\<And>x. triple I (f x) Q E) \<Longrightarrow> triple I (bind_io m f) Q E"
  unfolding guards_def by (rule triple_bind)

lemma first_listing:
  "triple before_login (run_subprocess w [''sf'', ''org'', ''list''] False None)
     (\<lambda>r. listed_once) hub_missing_fatal"
  by (rule triple_run_subprocess)
     (auto simp: before_login_def listed_once_def hub_missing_fatal_def app_def)

lemma second_listing:
  "triple listed_once (run_subprocess w [''sf'', ''org'', ''list''] False None)
     (\<lambda>r. relisted (or_empty r)) hub_missing_fatal"
  by (rule triple_run_subprocess)
     (auto simp: listed_once_def relisted_def hub_missing_fatal_def app_def or_empty_def)

lemma verdict:
  "triple (relisted b)
     (if \<not> py_in ''DevHub'' b
      then bind_io (logger_error ''Devhub alias not found after login'') (\<lambda>_. sys_exit 1)
      else return_io ())
     (\<lambda>_. hub_seen) hub_missing_fatal"
  by (auto simp: triple_def relisted_def hub_seen_def hub_missing_fatal_def bind_io_def
      logger_error_def emit_def sys_exit_def raise_io_def return_io_def)

lemma login_devhub_verifies:
  "triple before_login (login_devhub w url force_auth) (\<lambda>_. hub_seen) hub_missing_fatal"
  unfolding login_devhub_def Let_def
  apply (rule triple_bind_guards, rule guards_log, rule basic_before_login)
  apply (rule triple_bind_guards, rule guards_log, rule basic_before_login)
  apply (rule triple_bind_guards, rule guards_log, rule basic_before_login)
  apply (rule triple_bind_guards, rule guards_log, rule basic_before_login)
  apply (rule triple_bind[OF first_listing])
  apply (rule triple_bind[where R = "\<lambda>_. listed_once"])
  subgoal
    unfolding guards_def[symmetric]
    by (intro guards_intros basic_listed_once cmd_ok_listed_once) (simp_all add: creates_scratch_def)
  apply (rule triple_bind[OF second_listing])
  apply (rule verdict)
  done


lemma start_main_verifies:
  "triple before_login (start_main w args) (\<lambda>_. hub_seen) hub_missing_fatal"
  unfolding start_main_def Let_def
  apply (rule triple_bind_guards, rule guards_log, rule basic_before_login)
  apply (rule triple_bind_guards, rule guards_log, rule basic_before_login)
  apply (rule triple_bind_guards, rule guards_log, rule basic_before_login)
  apply (rule triple_bind_guards)
   apply (rule guards_git_prepare_branch[OF basic_before_login])
   apply (rule cmd_ok_before_login)
    apply (auto simp: git_commands_def creates_scratch_def)[2]
  apply (rule triple_bind_guards, rule guards_log, rule basic_before_login)
  apply (rule triple_bind_guards)
   apply (rule guards_check_sfcli_exists[OF basic_before_login])
   apply (rule cmd_ok_before_login)
    apply (simp_all add: creates_scratch_def)[2]
  apply (rule triple_bind[OF login_devhub_verifies])
  unfolding guards_def[symmetric]
  apply (intro guards_intros guards_create_scratch_org guards_deploy_source_metadata
      guards_open_scratch_org basic_hub_seen cmd_ok_hub_seen)
    apply (simp_all add: create_command_def deploy_command_def open_command_def)
  done

text \<open>
  C5: when the second \<open>sf org list\<close> of a run, the one that verifies the login, printed
  no \<open>DevHub\<close>, the run ended with exit code 1 and asked for no scratch org.
\<close>

theorem no_scratch_org_without_devhub:
  assumes "org_listings (trace s) = []" and "no_create (trace s)"
    and "org_listings (trace (snd (start_main w args s))) = first # second # later"
    and "\<not> py_in ''DevHub'' second"
  shows "fst (start_main w args s) = Inl (SystemExit 1)
         \<and> no_create (trace (snd (start_main w args s)))"
proof (cases "start_main w args s")
  case (Pair r s')
  from assms(1,2) have b: "before_login s" by (simp add: before_login_def)
  show ?thesis
  proof (cases r)
    case (Inl e)
    from tripleD_Inl[OF start_main_verifies b] Pair Inl have "hub_missing_fatal e s'" by simp
    with assms(3,4) Pair Inl show ?thesis by (simp add: hub_missing_fatal_def)
  next
    case (Inr x)
    from tripleD_Inr[OF start_main_verifies b] Pair Inr have "hub_seen s'" by simp
    with assms(3,4) Pair show ?thesis by (auto simp: hub_seen_def)
  qed
qed

definition lonely_world :: world where
  "lonely_world = fair_world\<lparr>proc := (\<lambda>tr cmd cwd. Exited 0 ''No orgs found'')\<rparr>"

lemma py_in_lonely: "\<not> py_in ''DevHub'' ''No orgs found''"
  by simp

lemma lonely_run:
  "org_listings (trace (snd (start_main lonely_world (hello_args False) (fresh []))))
     = [''No orgs found'', ''No orgs found'']"
  by (simp add: start_defs io_defs Let_def lonely_world_def fair_world_def hello_args_def fresh_def
      norm_env_example)

theorem no_scratch_org_without_devhub_witness:
  "org_listings (trace (fresh [])) = [] \<and> no_create (trace (fresh []))
   \<and> org_listings (trace (snd (start_main lonely_world (hello_args False) (fresh []))))
       = [''No orgs found'', ''No orgs found'']
   \<and> \<not> py_in ''DevHub'' ''No orgs found''
   \<and> fst (start_main lonely_world (hello_args False) (fresh [])) = Inl (SystemExit 1)
   \<and> no_create (trace (snd (start_main lonely_world (hello_args False) (fresh []))))"
proof -
  have a: "org_listings (trace (fresh [])) = []" and b: "no_create (trace (fresh []))"
    by (simp_all add: fresh_def)
  from no_scratch_org_without_devhub[OF a b lonely_run py_in_lonely] a b lonely_run py_in_lonely
  show ?thesis by blast
qed

end
